theory Spec2Isabelle
  imports Main
begin

section \<open>Python values, exceptions and effects\<close>

text \<open>
  The event relay of \<^verbatim>\<open>script.py\<close> is embedded here: the three classes
  \<^verbatim>\<open>ChainConnector\<close>, \<^verbatim>\<open>DestinationChainOracle\<close> and
  \<^verbatim>\<open>EventListenerService\<close>, and \<^verbatim>\<open>main\<close>.

  Scalar values as they occur in decoded event arguments and in the JSON payload.
\<close>

datatype pyval = PNone | PInt int | PStr string | PBool bool

text \<open>
  The objects stored under the keys of a log or of the processed data: a scalar, a
  \<^verbatim>\<open>HexBytes\<close> value (kept as the string its \<^verbatim>\<open>.hex()\<close> returns), or a
  dictionary of scalars (the decoded \<^verbatim>\<open>args\<close>). A dictionary is an association
  list; \<open>map_of\<close> is the lookup.
\<close>

datatype pyobj = Val pyval | HexBytes string | Dict "(string \<times> pyval) list"

type_synonym pydict = "(string \<times> pyobj) list"

text \<open>
  The exception classes that the code raises or names in an \<^verbatim>\<open>except\<close> clause.
  \<open>HTTPError\<close>, \<open>RequestsConnectionError\<close>, \<open>Timeout\<close> and \<open>RequestsJSONDecodeError\<close>
  are the subclasses of \<^verbatim>\<open>requests.exceptions.RequestException\<close>;
  \<open>JSONDecodeError\<close> is the \<^verbatim>\<open>ValueError\<close> of the \<^verbatim>\<open>json\<close> module;
  \<open>KeyboardInterrupt\<close> is the only one that is not a subclass of \<^verbatim>\<open>Exception\<close>.
\<close>

datatype py_exception =
    KeyError string
  | AttributeError
  | ValueError
  | JSONDecodeError
  | ConnectionError
  | HTTPError nat
  | RequestsConnectionError
  | Timeout
  | RequestsJSONDecodeError
  | RuntimeError
  | KeyboardInterrupt

fun is_Exception :: "py_exception \<Rightarrow> bool" where
  "is_Exception KeyboardInterrupt = False"
| "is_Exception _ = True"

fun is_RequestException :: "py_exception \<Rightarrow> bool" where
  "is_RequestException (HTTPError _) = True"
| "is_RequestException RequestsConnectionError = True"
| "is_RequestException Timeout = True"
| "is_RequestException RequestsJSONDecodeError = True"
| "is_RequestException _ = False"

fun is_AttributeError :: "py_exception \<Rightarrow> bool" where
  "is_AttributeError AttributeError = True"
| "is_AttributeError _ = False"

fun is_ConnectionError :: "py_exception \<Rightarrow> bool" where
  "is_ConnectionError ConnectionError = True"
| "is_ConnectionError _ = False"

datatype 'a outcome = Returns 'a | Raises py_exception

subsection \<open>The calls the program makes to the outside\<close>

datatype log_level = DEBUG | INFO | WARNING | ERROR | CRITICAL

text \<open>One constructor for each \<^verbatim>\<open>logger\<close> call of the source, with what it interpolates.\<close>

datatype log_msg =
    ConnectedMsg string
  | ConnectErrorMsg
  | RelayingMsg string pydict
  | RelayedMsg pyval
  | RelayFailedMsg py_exception
  | EventNotFoundMsg string
  | NewEventMsg string string
  | MissingArgsMsg pydict
  | ProcessedMsg pyobj
  | AttemptFailedMsg nat nat
  | GaveUpMsg nat
  | StartingMsg string
  | NoEventsMsg
  | ShutdownMsg
  | UnexpectedErrorMsg py_exception
  | ReconnectingMsg
  | ReconnectedMsg
  | ReconnectFailedMsg py_exception
  | EnvMissingMsg
  | InitConnectionErrorMsg
  | FatalSetupMsg py_exception

datatype event_filter = EventFilter nat

datatype action =
    Log log_level log_msg
  | Sleep nat
  | HttpPost string "(string \<times> string) list" pydict nat
  | ConnectRpc string
  | CreateFilter string
  | GetNewEntries event_filter
  | GetBlockNumber

record response =
  status_code :: nat
  json :: "pyval outcome"

datatype connect_outcome = ProviderFails | NodeUnreachable | ContractFails | ConnectOk

text \<open>
  The outside world, as the answers it gives to the program's calls, each kind of call
  in the order the calls are made: index 0 is the answer to the next call.
  \<^item> \<open>http_post\<close>: \<^verbatim>\<open>requests.post\<close> returns a response or raises;
  \<^item> \<open>new_entries\<close>: \<^verbatim>\<open>event_filter.get_new_entries()\<close>;
  \<^item> \<open>rpc_connect\<close>: what happens inside the \<^verbatim>\<open>try\<close> of \<^verbatim>\<open>_connect\<close>;
  \<^item> \<open>new_filter\<close>: \<^verbatim>\<open>event.create_filter(fromBlock='latest')\<close>;
  \<^item> \<open>eth_block_number\<close>: \<^verbatim>\<open>web3.eth.block_number\<close>.
\<close>

record world =
  http_post :: "nat \<Rightarrow> response outcome"
  new_entries :: "nat \<Rightarrow> pydict list outcome"
  rpc_connect :: "nat \<Rightarrow> connect_outcome"
  new_filter :: "nat \<Rightarrow> nat outcome"
  eth_block_number :: "nat \<Rightarrow> int outcome"

text \<open>
  A computation takes the world, and gives its outcome (a value or an exception), the
  calls it made in order, and the world that is left.
\<close>

type_synonym 'a io = "world \<Rightarrow> 'a outcome \<times> action list \<times> world"

definition io_return :: "'a \<Rightarrow> 'a io" where
  "io_return x = (\<lambda>w. (Returns x, [], w))"

definition io_raise :: "py_exception \<Rightarrow> 'a io" where
  "io_raise e = (\<lambda>w. (Raises e, [], w))"

definition io_of :: "'a outcome \<Rightarrow> 'a io" where
  "io_of r = (\<lambda>w. (r, [], w))"

definition emit :: "action \<Rightarrow> unit io" where
  "emit a = (\<lambda>w. (Returns (), [a], w))"

definition io_bind :: "'a io \<Rightarrow> ('a \<Rightarrow> 'b io) \<Rightarrow> 'b io" where
  "io_bind m f = (\<lambda>w.
     case m w of
       (Raises e, as, w') \<Rightarrow> (Raises e, as, w')
     | (Returns x, as, w') \<Rightarrow> (case f x w' of (r, bs, w'') \<Rightarrow> (r, as @ bs, w'')))"

definition io_then :: "'a io \<Rightarrow> 'b io \<Rightarrow> 'b io" where
  "io_then m k = io_bind m (\<lambda>_. k)"

text \<open>\<^verbatim>\<open>try: m except ...: handler\<close>; a handler re-raises what its clause does not catch.\<close>

definition try_except :: "'a io \<Rightarrow> (py_exception \<Rightarrow> 'a io) \<Rightarrow> 'a io" where
  "try_except m handler = (\<lambda>w.
     case m w of
       (Raises e, as, w') \<Rightarrow> (case handler e w' of (r, bs, w'') \<Rightarrow> (r, as @ bs, w''))
     | (Returns x, as, w') \<Rightarrow> (Returns x, as, w'))"

subsection \<open>Dictionary access, \<^verbatim>\<open>.hex()\<close> and \<^verbatim>\<open>str()\<close>\<close>

text \<open>\<^verbatim>\<open>d[k]\<close> raises \<^verbatim>\<open>KeyError\<close> on a missing key.\<close>

definition getitem :: "(string \<times> 'v) list \<Rightarrow> string \<Rightarrow> 'v outcome" where
  "getitem d k = (case map_of d k of None \<Rightarrow> Raises (KeyError k) | Some v \<Rightarrow> Returns v)"

text \<open>\<^verbatim>\<open>x.get(k)\<close>: \<^verbatim>\<open>None\<close> on a missing key; only a dictionary has the method.\<close>

definition get_or_none :: "(string \<times> pyval) list \<Rightarrow> string \<Rightarrow> pyval" where
  "get_or_none d k = (case map_of d k of None \<Rightarrow> PNone | Some v \<Rightarrow> v)"

fun dict_get :: "pyobj \<Rightarrow> string \<Rightarrow> pyval outcome" where
  "dict_get (Dict d) k = Returns (get_or_none d k)"
| "dict_get _ k = Raises AttributeError"

text \<open>\<^verbatim>\<open>x.hex()\<close>: only the bytes value has the method.\<close>

fun hex :: "pyobj \<Rightarrow> string outcome" where
  "hex (HexBytes h) = Returns h"
| "hex _ = Raises AttributeError"

definition digit_char :: "nat \<Rightarrow> char" where
  "digit_char d = ''0123456789'' ! d"

fun str_nat :: "nat \<Rightarrow> string" where
  "str_nat n = (if n < 10 then [digit_char n] else str_nat (n div 10) @ [digit_char (n mod 10)])"

declare str_nat.simps [simp del]

definition str_int :: "int \<Rightarrow> string" where
  "str_int i = (if i < 0 then CHR ''-'' # str_nat (nat (- i)) else str_nat (nat i))"

text \<open>\<^verbatim>\<open>str(x)\<close> on a scalar.\<close>

fun py_str :: "pyval \<Rightarrow> string" where
  "py_str PNone = ''None''"
| "py_str (PInt i) = str_int i"
| "py_str (PStr s) = s"
| "py_str (PBool b) = (if b then ''True'' else ''False'')"

text \<open>Reading a decimal string back, and what a decimal string is.\<close>

definition is_digit :: "char \<Rightarrow> bool" where
  "is_digit c = (c \<in> set ''0123456789'')"

definition is_decimal :: "string \<Rightarrow> bool" where
  "is_decimal s = (s \<noteq> [] \<and> list_all is_digit s)"

text \<open>The value of a digit is its position among the ten digits.\<close>

definition digit_val :: "char \<Rightarrow> nat" where
  "digit_val c = length (takeWhile (\<lambda>d. d \<noteq> c) ''0123456789'')"

definition nat_of_decimal :: "string \<Rightarrow> nat" where
  "nat_of_decimal s = foldl (\<lambda>acc c. 10 * acc + digit_val c) 0 s"

section \<open>DestinationChainOracle\<close>

record destination_chain_oracle =
  api_endpoint :: string
  headers :: "(string \<times> string) list"

text \<open>\<^verbatim>\<open>DestinationChainOracle.__init__\<close>\<close>

definition oracle_init :: "string \<Rightarrow> string \<Rightarrow> destination_chain_oracle" where
  "oracle_init endpoint api_key =
     \<lparr>api_endpoint = endpoint,
      headers = [(''Content-Type'', ''application/json''), (''X-API-KEY'', api_key)]\<rparr>"

text \<open>\<^verbatim>\<open>requests.post(endpoint, headers=..., json=payload, timeout=10)\<close>: one call to the world.\<close>

definition requests_post ::
  "string \<Rightarrow> (string \<times> string) list \<Rightarrow> pydict \<Rightarrow> nat \<Rightarrow> response io" where
  "requests_post url hdrs payload timeout = (\<lambda>w.
     (http_post w 0, [HttpPost url hdrs payload timeout],
      w\<lparr>http_post := (\<lambda>k. http_post w (Suc k))\<rparr>))"

text \<open>
  \<^verbatim>\<open>response.raise_for_status()\<close>, as the source's comment on the call has it:
  \<^verbatim>\<open>Raises an HTTPError for bad responses (4xx or 5xx)\<close>.
\<close>

definition raise_for_status :: "response \<Rightarrow> unit io" where
  "raise_for_status r =
     (if 400 \<le> status_code r \<and> status_code r < 600 then io_raise (HTTPError (status_code r))
      else io_return ())"

text \<open>The dictionary literal of \<^verbatim>\<open>relay_event\<close>; its keys are read in this order.\<close>

definition build_payload :: "pydict \<Rightarrow> pydict outcome" where
  "build_payload event_data =
     (case getitem event_data ''transactionHash'' of Raises e \<Rightarrow> Raises e | Returns tx \<Rightarrow>
      case getitem event_data ''source_chain_id'' of Raises e \<Rightarrow> Raises e | Returns src \<Rightarrow>
      case getitem event_data ''destination_chain_id'' of Raises e \<Rightarrow> Raises e | Returns dst \<Rightarrow>
      case getitem event_data ''user'' of Raises e \<Rightarrow> Raises e | Returns usr \<Rightarrow>
      case getitem event_data ''token'' of Raises e \<Rightarrow> Raises e | Returns tok \<Rightarrow>
      case getitem event_data ''amount'' of Raises e \<Rightarrow> Raises e | Returns amt \<Rightarrow>
      case getitem event_data ''block_number'' of Raises e \<Rightarrow> Raises e | Returns blk \<Rightarrow>
      Returns [(''source_tx_hash'', tx), (''source_chain_id'', src),
               (''destination_chain_id'', dst), (''user'', usr), (''token'', tok),
               (''amount'', amt), (''block_number'', blk)])"

text \<open>\<^verbatim>\<open>DestinationChainOracle.relay_event\<close>\<close>

definition relay_event :: "destination_chain_oracle \<Rightarrow> pydict \<Rightarrow> bool io" where
  "relay_event self event_data =
     try_except
       (io_bind (io_of (build_payload event_data)) (\<lambda>payload.
        io_then (emit (Log INFO (RelayingMsg (api_endpoint self) payload)))
       (io_bind (requests_post (api_endpoint self) (headers self) payload 10) (\<lambda>resp.
        io_then (raise_for_status resp)
       (io_bind (io_of (json resp)) (\<lambda>body.
        io_then (emit (Log INFO (RelayedMsg body)))
       (io_return True)))))))
       (\<lambda>e. if is_RequestException e
            then io_then (emit (Log ERROR (RelayFailedMsg e))) (io_return False)
            else io_raise e)"

section \<open>ChainConnector\<close>

datatype web3 = Web3 string

datatype contract = Contract string "string list"

text \<open>The ABI is kept as the names of the events it declares.\<close>

record chain_connector =
  rpc_url :: string
  contract_address :: string
  contract_abi :: "string list"
  web3 :: "web3 option"
  contract :: "contract option"

text \<open>
  \<^verbatim>\<open>ChainConnector._connect\<close>. The method assigns to \<^verbatim>\<open>self\<close> before it may raise, so
  the connector comes back beside the outcome. Whatever goes wrong inside the
  \<^verbatim>\<open>try\<close> is logged and raised again as \<^verbatim>\<open>ConnectionError\<close>.
\<close>

definition connect ::
  "chain_connector \<Rightarrow> world \<Rightarrow> unit outcome \<times> chain_connector \<times> action list \<times> world" where
  "connect self w =
     (let w' = w\<lparr>rpc_connect := (\<lambda>k. rpc_connect w (Suc k))\<rparr>;
          fresh = self\<lparr>web3 := Some (Web3 (rpc_url self))\<rparr>;
          failed = [ConnectRpc (rpc_url self), Log ERROR ConnectErrorMsg]
      in case rpc_connect w 0 of
           ProviderFails \<Rightarrow> (Raises ConnectionError, self, failed, w')
         | NodeUnreachable \<Rightarrow> (Raises ConnectionError, fresh, failed, w')
         | ContractFails \<Rightarrow> (Raises ConnectionError, fresh, failed, w')
         | ConnectOk \<Rightarrow>
             (Returns (),
              fresh\<lparr>contract := Some (Contract (contract_address self) (contract_abi self))\<rparr>,
              [ConnectRpc (rpc_url self), Log INFO (ConnectedMsg (contract_address self))], w'))"

text \<open>\<^verbatim>\<open>ChainConnector.__init__\<close>: no object exists when \<^verbatim>\<open>_connect\<close> raises.\<close>

definition chain_connector_init :: "string \<Rightarrow> string \<Rightarrow> string list \<Rightarrow> chain_connector io" where
  "chain_connector_init url address abi = (\<lambda>w.
     case connect \<lparr>rpc_url = url, contract_address = address, contract_abi = abi,
                    web3 = None, contract = None\<rparr> w of
       (Raises e, self, as, w') \<Rightarrow> (Raises e, as, w')
     | (Returns u, self, as, w') \<Rightarrow> (Returns self, as, w'))"

text \<open>\<^verbatim>\<open>ChainConnector.get_latest_block_number\<close>\<close>

definition get_latest_block_number :: "chain_connector \<Rightarrow> int io" where
  "get_latest_block_number self =
     (if web3 self = None then io_raise ConnectionError
      else (\<lambda>w. (eth_block_number w 0, [GetBlockNumber],
                  w\<lparr>eth_block_number := (\<lambda>k. eth_block_number w (Suc k))\<rparr>)))"

section \<open>EventListenerService\<close>

text \<open>The field \<open>oracle'\<close> is \<^verbatim>\<open>self.oracle\<close>.\<close>

record event_listener_service =
  connector :: chain_connector
  oracle' :: destination_chain_oracle
  event_name :: string
  source_chain_id :: int
  event_filter :: event_filter
  last_processed_block :: int

text \<open>
  \<^verbatim>\<open>EventListenerService._create_event_filter\<close>. It reads the connector and the event
  name only, and \<^verbatim>\<open>__init__\<close> calls it before the object is complete, so these two
  are its arguments. \<^verbatim>\<open>getattr(contract.events, name)\<close> raises
  \<^verbatim>\<open>AttributeError\<close> for a name that the ABI does not declare.
\<close>

definition create_event_filter :: "chain_connector \<Rightarrow> string \<Rightarrow> event_filter io" where
  "create_event_filter conn name =
     (case contract conn of
        None \<Rightarrow> io_raise ValueError
      | Some (Contract address abi) \<Rightarrow>
          try_except
            (if name \<in> set abi
             then (\<lambda>w. (case new_filter w 0 of Raises e \<Rightarrow> Raises e
                                             | Returns i \<Rightarrow> Returns (EventFilter i),
                         [CreateFilter name],
                         w\<lparr>new_filter := (\<lambda>k. new_filter w (Suc k))\<rparr>))
             else io_raise AttributeError)
            (\<lambda>e. if is_AttributeError e
                 then io_then (emit (Log ERROR (EventNotFoundMsg name))) (io_raise e)
                 else io_raise e))"

text \<open>\<^verbatim>\<open>EventListenerService.__init__\<close>\<close>

definition service_init ::
  "chain_connector \<Rightarrow> destination_chain_oracle \<Rightarrow> string \<Rightarrow> int \<Rightarrow> event_listener_service io" where
  "service_init chain_conn orc name chain_id =
     io_bind (create_event_filter chain_conn name) (\<lambda>flt.
     io_bind (get_latest_block_number chain_conn) (\<lambda>latest.
     io_return \<lparr>connector = chain_conn, oracle' = orc, event_name = name,
                source_chain_id = chain_id, event_filter = flt,
                last_processed_block = latest - 1\<rparr>))"

text \<open>The dictionary literal \<^verbatim>\<open>processed_data\<close> of \<^verbatim>\<open>_process_event\<close>.\<close>

definition processed_data :: "event_listener_service \<Rightarrow> pydict \<Rightarrow> pydict outcome" where
  "processed_data self event =
     (case getitem event ''args'' of Raises e \<Rightarrow> Raises e | Returns event_args \<Rightarrow>
      case getitem event ''transactionHash'' of Raises e \<Rightarrow> Raises e | Returns tx \<Rightarrow>
      case hex tx of Raises e \<Rightarrow> Raises e | Returns h \<Rightarrow>
      case getitem event ''blockNumber'' of Raises e \<Rightarrow> Raises e | Returns blk \<Rightarrow>
      case dict_get event_args ''destinationChainId'' of Raises e \<Rightarrow> Raises e | Returns dst \<Rightarrow>
      case dict_get event_args ''user'' of Raises e \<Rightarrow> Raises e | Returns usr \<Rightarrow>
      case dict_get event_args ''token'' of Raises e \<Rightarrow> Raises e | Returns tok \<Rightarrow>
      case dict_get event_args ''amount'' of Raises e \<Rightarrow> Raises e | Returns amt \<Rightarrow>
      Returns [(''transactionHash'', Val (PStr h)), (''block_number'', blk),
               (''source_chain_id'', Val (PInt (source_chain_id self))),
               (''destination_chain_id'', Val dst), (''user'', Val usr), (''token'', Val tok),
               (''amount'', Val (PStr (py_str amt)))])"

text \<open>
  The retry loop of \<^verbatim>\<open>_process_event\<close>: \<^verbatim>\<open>for attempt in range(max_retries)\<close> with
  its \<^verbatim>\<open>break\<close> and its \<^verbatim>\<open>else\<close> clause, over the attempts that are left.
\<close>

fun relay_attempts :: "destination_chain_oracle \<Rightarrow> pydict \<Rightarrow> nat \<Rightarrow> nat list \<Rightarrow> unit io" where
  "relay_attempts orc data max_retries [] = emit (Log ERROR (GaveUpMsg max_retries))"
| "relay_attempts orc data max_retries (attempt # rest) =
     io_bind (relay_event orc data) (\<lambda>ok.
       if ok
       then io_bind (io_of (getitem data ''transactionHash'')) (\<lambda>tx.
            emit (Log INFO (ProcessedMsg tx)))
       else io_then (emit (Log WARNING (AttemptFailedMsg (attempt + 1) max_retries)))
           (io_then (emit (Sleep (2 ^ attempt)))
           (relay_attempts orc data max_retries rest)))"

definition max_retries :: nat where
  "max_retries = 3"

text \<open>\<^verbatim>\<open>EventListenerService._process_event\<close>\<close>

definition process_event :: "event_listener_service \<Rightarrow> pydict \<Rightarrow> unit io" where
  "process_event self event =
     io_bind (io_of (getitem event ''transactionHash'')) (\<lambda>tx.
     io_bind (io_of (hex tx)) (\<lambda>h.
     io_then (emit (Log INFO (NewEventMsg (event_name self) h)))
       (if map_of event ''args'' = None
        then emit (Log WARNING (MissingArgsMsg event))
        else io_bind (io_of (processed_data self event)) (\<lambda>data.
             relay_attempts (oracle' self) data max_retries [0..<max_retries]))))"

text \<open>\<^verbatim>\<open>for event in logs: self._process_event(event)\<close>\<close>

fun process_events :: "event_listener_service \<Rightarrow> pydict list \<Rightarrow> unit io" where
  "process_events self [] = io_return ()"
| "process_events self (event # logs) =
     io_then (process_event self event) (process_events self logs)"

text \<open>\<^verbatim>\<open>self.event_filter.get_new_entries()\<close>\<close>

definition get_new_entries :: "event_filter \<Rightarrow> pydict list io" where
  "get_new_entries flt = (\<lambda>w.
     (new_entries w 0, [GetNewEntries flt], w\<lparr>new_entries := (\<lambda>k. new_entries w (Suc k))\<rparr>))"

text \<open>The body of the \<^verbatim>\<open>try\<close> in the loop of \<^verbatim>\<open>run\<close>.\<close>

definition poll_cycle :: "event_listener_service \<Rightarrow> nat \<Rightarrow> unit io" where
  "poll_cycle self poll_interval =
     io_bind (get_new_entries (event_filter self)) (\<lambda>logs.
     io_then (if logs \<noteq> [] then process_events self logs else emit (Log DEBUG NoEventsMsg))
             (emit (Sleep poll_interval)))"

text \<open>
  \<^verbatim>\<open>EventListenerService._reconnect_and_recreate_filter\<close>: \<^verbatim>\<open>except Exception\<close>
  swallows every exception but \<^verbatim>\<open>KeyboardInterrupt\<close>.
\<close>

definition reconnect_and_recreate_filter ::
  "event_listener_service \<Rightarrow> world
     \<Rightarrow> unit outcome \<times> event_listener_service \<times> action list \<times> world" where
  "reconnect_and_recreate_filter self w =
     (case connect (connector self) w of
        (Raises e, conn, as, w') \<Rightarrow>
          (if is_Exception e
           then (Returns (), self\<lparr>connector := conn\<rparr>,
                 as @ [Log ERROR (ReconnectFailedMsg e)], w')
           else (Raises e, self\<lparr>connector := conn\<rparr>, as, w'))
      | (Returns u, conn, as, w') \<Rightarrow>
          (case create_event_filter conn (event_name self) w' of
             (Returns flt, bs, w'') \<Rightarrow>
               (Returns (), self\<lparr>connector := conn, event_filter := flt\<rparr>,
                as @ bs @ [Log INFO ReconnectedMsg], w'')
           | (Raises e, bs, w'') \<Rightarrow>
               (if is_Exception e
                then (Returns (), self\<lparr>connector := conn\<rparr>,
                      as @ bs @ [Log ERROR (ReconnectFailedMsg e)], w'')
                else (Raises e, self\<lparr>connector := conn\<rparr>, as @ bs, w''))))"

text \<open>
  One iteration of \<^verbatim>\<open>while True\<close> in \<^verbatim>\<open>run\<close>. The loop goes on, or it is left by
  the \<^verbatim>\<open>break\<close> of the \<^verbatim>\<open>KeyboardInterrupt\<close> clause, or an exception leaves
  the handler.
\<close>

datatype loop_status = Looping | Stopped | Crashed py_exception

definition run_iteration ::
  "event_listener_service \<Rightarrow> nat \<Rightarrow> world
     \<Rightarrow> loop_status \<times> event_listener_service \<times> action list \<times> world" where
  "run_iteration self poll_interval w =
     (case poll_cycle self poll_interval w of
        (Returns u, as, w') \<Rightarrow> (Looping, self, as, w')
      | (Raises e, as, w') \<Rightarrow>
          (if e = KeyboardInterrupt
           then (Stopped, self, as @ [Log INFO ShutdownMsg], w')
           else (case reconnect_and_recreate_filter self w' of
                   (r, self', bs, w'') \<Rightarrow>
                     (case r of Returns u \<Rightarrow> Looping | Raises e' \<Rightarrow> Crashed e',
                      self',
                      as @ [Log CRITICAL (UnexpectedErrorMsg e), Log INFO ReconnectingMsg,
                            Sleep 15] @ bs,
                      w''))))"

text \<open>
  The loop, for a given number of iterations: the source's loop has no other exit than
  the two above, so the iterations are counted and \<open>Looping\<close> is the status of a loop
  that is still running.
\<close>

fun run_loop ::
  "nat \<Rightarrow> event_listener_service \<Rightarrow> nat \<Rightarrow> world
     \<Rightarrow> loop_status \<times> event_listener_service \<times> action list \<times> world" where
  "run_loop 0 self poll_interval w = (Looping, self, [], w)"
| "run_loop (Suc n) self poll_interval w =
     (case run_iteration self poll_interval w of
        (Looping, self', as, w') \<Rightarrow>
          (case run_loop n self' poll_interval w' of
             (st, self'', bs, w'') \<Rightarrow> (st, self'', as @ bs, w''))
      | (st, self', as, w') \<Rightarrow> (st, self', as, w'))"

text \<open>\<^verbatim>\<open>EventListenerService.run\<close>\<close>

definition run ::
  "nat \<Rightarrow> event_listener_service \<Rightarrow> nat \<Rightarrow> world
     \<Rightarrow> loop_status \<times> event_listener_service \<times> action list \<times> world" where
  "run n self poll_interval w =
     (case run_loop n self poll_interval w of
        (st, self', as, w') \<Rightarrow> (st, self', Log INFO (StartingMsg (event_name self)) # as, w'))"

section \<open>main\<close>

text \<open>Truth value of what \<^verbatim>\<open>os.getenv\<close> returns: \<^verbatim>\<open>None\<close> and the empty string are false.\<close>

definition truthy :: "string option \<Rightarrow> bool" where
  "truthy v = (case v of None \<Rightarrow> False | Some s \<Rightarrow> s \<noteq> [])"

text \<open>The ABI literal of \<^verbatim>\<open>main\<close> declares one event.\<close>

definition BRIDGE_ABI :: "string list" where
  "BRIDGE_ABI = [''BridgeDepositInitiated'']"

text \<open>
  How \<^verbatim>\<open>main\<close> ends: at the configuration check, in one of its two \<^verbatim>\<open>except\<close>
  clauses, with an exception that neither catches, after \<^verbatim>\<open>run\<close> has returned, or
  not yet (the loop is still running after the iterations counted).
\<close>

datatype main_result = ConfigMissing | Failed py_exception | Uncaught py_exception | Exited | Running

definition default_poll_interval :: nat where
  "default_poll_interval = 5"

definition main ::
  "(string \<Rightarrow> string option) \<Rightarrow> nat \<Rightarrow> world \<Rightarrow> main_result \<times> action list \<times> world" where
  "main getenv n w =
     (let SOURCE_CHAIN_RPC_URL = getenv ''SOURCE_CHAIN_RPC_URL'';
          BRIDGE_CONTRACT_ADDRESS = getenv ''BRIDGE_CONTRACT_ADDRESS'';
          DESTINATION_API_ENDPOINT = getenv ''DESTINATION_API_ENDPOINT'';
          DESTINATION_API_KEY = getenv ''DESTINATION_API_KEY''
      in if \<not> list_all truthy [SOURCE_CHAIN_RPC_URL, BRIDGE_CONTRACT_ADDRESS,
                                 DESTINATION_API_ENDPOINT, DESTINATION_API_KEY]
         then (ConfigMissing, [Log ERROR EnvMissingMsg], w)
         else
           (let handler = (\<lambda>e as w'.
                  if is_ConnectionError e
                  then (Failed e, as @ [Log CRITICAL InitConnectionErrorMsg], w')
                  else if is_Exception e
                  then (Failed e, as @ [Log CRITICAL (FatalSetupMsg e)], w')
                  else (Uncaught e, as, w'))
            in case io_bind (chain_connector_init (the SOURCE_CHAIN_RPC_URL)
                               (the BRIDGE_CONTRACT_ADDRESS) BRIDGE_ABI) (\<lambda>chain_conn.
                    service_init chain_conn
                      (oracle_init (the DESTINATION_API_ENDPOINT) (the DESTINATION_API_KEY))
                      ''BridgeDepositInitiated'' 1) w of
                 (Raises e, as, w') \<Rightarrow> handler e as w'
               | (Returns listener_service, as, w') \<Rightarrow>
                   (case run n listener_service default_poll_interval w' of
                      (Looping, self', bs, w'') \<Rightarrow> (Running, as @ bs, w'')
                    | (Stopped, self', bs, w'') \<Rightarrow> (Exited, as @ bs, w'')
                    | (Crashed e, self', bs, w'') \<Rightarrow> handler e (as @ bs) w'')))"

section \<open>Reading a trace\<close>

fun is_post :: "action \<Rightarrow> bool" where
  "is_post (HttpPost url hdrs payload timeout) = True"
| "is_post _ = False"

text \<open>The delivery calls of a trace, and the delays slept, in order.\<close>

definition posts :: "action list \<Rightarrow> action list" where
  "posts as = filter is_post as"

fun sleeps :: "action list \<Rightarrow> nat list" where
  "sleeps [] = []"
| "sleeps (Sleep d # as) = d # sleeps as"
| "sleeps (a # as) = sleeps as"

section \<open>Vocabulary of the statements\<close>

text \<open>The world after \<open>n\<close> more delivery calls have been answered.\<close>

definition after_posts :: "nat \<Rightarrow> world \<Rightarrow> world" where
  "after_posts n w = w\<lparr>http_post := (\<lambda>k. http_post w (k + n))\<rparr>"

text \<open>The world after one more poll of the filter has been answered.\<close>

definition after_poll :: "world \<Rightarrow> world" where
  "after_poll w = w\<lparr>new_entries := (\<lambda>k. new_entries w (Suc k))\<rparr>"

text \<open>What a trace holds before its first delivery call, and after its last one.\<close>

definition before_first_post :: "action list \<Rightarrow> action list" where
  "before_first_post as = takeWhile (\<lambda>a. \<not> is_post a) as"

definition after_last_post :: "action list \<Rightarrow> action list" where
  "after_last_post as = rev (takeWhile (\<lambda>a. \<not> is_post a) (rev as))"

text \<open>
  What \<^verbatim>\<open>relay_event\<close> returns, read off the world's answer to its one
  \<^verbatim>\<open>requests.post\<close>; lemma \<open>relay_event_result\<close> proves that this is what the code does.
\<close>

fun delivery_result :: "response outcome \<Rightarrow> bool outcome" where
  "delivery_result (Raises e) = (if is_RequestException e then Returns False else Raises e)"
| "delivery_result (Returns r) =
     (if 400 \<le> status_code r \<and> status_code r < 600 then Returns False
      else case json r of
             Returns body \<Rightarrow> Returns True
           | Raises e \<Rightarrow> if is_RequestException e then Returns False else Raises e)"

section \<open>Concrete inputs\<close>

text \<open>A service as \<^verbatim>\<open>main\<close> builds it, and the log of a deposit of \<open>10^18\<close> units.\<close>

text \<open>A contract address: twenty bytes in hexadecimal.\<close>

definition bridge_address :: string where
  "bridge_address = ''0x1111111111111111111111111111111111111111''"

definition connector0 :: chain_connector where
  "connector0 =
     \<lparr>rpc_url = ''http://rpc'', contract_address = bridge_address, contract_abi = BRIDGE_ABI,
      web3 = Some (Web3 ''http://rpc''), contract = Some (Contract bridge_address BRIDGE_ABI)\<rparr>"

definition service0 :: event_listener_service where
  "service0 =
     \<lparr>connector = connector0, oracle' = oracle_init ''http://relayer'' ''key'',
      event_name = ''BridgeDepositInitiated'', source_chain_id = 1,
      event_filter = EventFilter 0, last_processed_block = 99\<rparr>"

definition deposit_log :: pydict where
  "deposit_log =
     [(''transactionHash'', HexBytes ''ab''), (''blockNumber'', Val (PInt 100)),
      (''args'', Dict [(''user'', PStr ''0xA''), (''token'', PStr ''0xB''),
                       (''amount'', PInt 1000000000000000000), (''destinationChainId'', PInt 2)])]"

text \<open>
  A world given by its answers to the delivery calls and to the polls: the node is
  reachable, filters are created, and the latest block is 100.
\<close>

definition answering ::
  "(nat \<Rightarrow> response outcome) \<Rightarrow> (nat \<Rightarrow> pydict list outcome) \<Rightarrow> world" where
  "answering posts_answers polls_answers =
     \<lparr>http_post = posts_answers, new_entries = polls_answers, rpc_connect = (\<lambda>k. ConnectOk),
      new_filter = (\<lambda>k. Returns (Suc k)), eth_block_number = (\<lambda>k. Returns 100)\<rparr>"

text \<open>
  The destination answers every call with the given status and a JSON body; the status
  is one whose answer has a body (not 1xx, 204 or 304).
\<close>

definition always_status :: "nat \<Rightarrow> nat \<Rightarrow> response outcome" where
  "always_status code k = Returns \<lparr>status_code = code, json = Returns PNone\<rparr>"

text \<open>The destination fails the first \<open>n\<close> calls with status 500 and then answers 200.\<close>

definition ok_after :: "nat \<Rightarrow> nat \<Rightarrow> response outcome" where
  "ok_after n k = Returns \<lparr>status_code = (if k < n then 500 else 200), json = Returns PNone\<rparr>"

definition no_logs :: "nat \<Rightarrow> pydict list outcome" where
  "no_logs k = Returns []"

text \<open>The first poll returns the given logs, the later ones nothing.\<close>

definition first_poll :: "pydict list \<Rightarrow> nat \<Rightarrow> pydict list outcome" where
  "first_poll logs k = Returns (if k = 0 then logs else [])"

text \<open>A log whose \<^verbatim>\<open>args\<close> are empty.\<close>

definition empty_args_log :: pydict where
  "empty_args_log =
     [(''transactionHash'', HexBytes ''ab''), (''blockNumber'', Val (PInt 100)),
      (''args'', Dict [])]"

text \<open>The processed data of the deposit log.\<close>

definition deposit_data :: pydict where
  "deposit_data =
     [(''transactionHash'', Val (PStr ''ab'')), (''block_number'', Val (PInt 100)),
      (''source_chain_id'', Val (PInt 1)), (''destination_chain_id'', Val (PInt 2)),
      (''user'', Val (PStr ''0xA'')), (''token'', Val (PStr ''0xB'')),
      (''amount'', Val (PStr ''1000000000000000000''))]"

text \<open>The destination answers 200 with a body on which \<^verbatim>\<open>response.json()\<close> raises.\<close>

definition bad_body :: "py_exception \<Rightarrow> nat \<Rightarrow> response outcome" where
  "bad_body e k = Returns \<lparr>status_code = 200, json = Raises e\<rparr>"

text \<open>An environment that sets the four variables \<^verbatim>\<open>main\<close> reads and nothing else.\<close>

definition four_variables :: "string \<Rightarrow> string option" where
  "four_variables =
     map_of [(''SOURCE_CHAIN_RPC_URL'', ''http://rpc''), (''BRIDGE_CONTRACT_ADDRESS'', bridge_address),
             (''DESTINATION_API_ENDPOINT'', ''http://relayer''), (''DESTINATION_API_KEY'', ''key'')]"



section \<open>Basic facts\<close>

lemmas io_defs = io_bind_def io_then_def io_return_def io_raise_def io_of_def emit_def try_except_def

lemma http_post_after_posts [simp]: "http_post (after_posts n w) k = http_post w (k + n)"
  by (simp add: after_posts_def)

lemma after_posts_0 [simp]: "after_posts 0 w = w"
  by (simp add: after_posts_def)

lemma after_posts_Suc: "after_posts 1 (after_posts n w) = after_posts (Suc n) w"
  by (simp add: after_posts_def)

lemma posts_append [simp]: "posts (as @ bs) = posts as @ posts bs"
  by (simp add: posts_def)

lemma posts_Cons [simp]: "posts (a # as) = (if is_post a then a # posts as else posts as)"
  by (simp add: posts_def)

lemma posts_Nil [simp]: "posts [] = []"
  by (simp add: posts_def)

lemma sleeps_append [simp]: "sleeps (as @ bs) = sleeps as @ sleeps bs"
  by (induction as rule: sleeps.induct) simp_all

lemma after_last_post_append:
  assumes "posts bs \<noteq> []"
  shows "after_last_post (as @ bs) = after_last_post bs"
proof -
  from assms obtain b where "b \<in> set bs" and "is_post b"
    by (metis filter_empty_conv posts_def)
  then have "\<exists>x\<in>set (rev bs). \<not> \<not> is_post x" by auto
  then have "takeWhile (\<lambda>a. \<not> is_post a) (rev bs @ rev as) = takeWhile (\<lambda>a. \<not> is_post a) (rev bs)"
    by (metis (mono_tags, lifting) takeWhile_append1)
  then show ?thesis by (simp add: after_last_post_def)
qed

lemma after_last_post_Cons:
  assumes "posts bs \<noteq> []"
  shows "after_last_post (a # bs) = after_last_post bs"
  using after_last_post_append [OF assms, of "[a]"] by simp

subsection \<open>\<^verbatim>\<open>relay_event\<close>\<close>

lemma relay_event_result:
  assumes "build_payload data = Returns p"
  shows "fst (relay_event self data w) = delivery_result (http_post w 0)"
  using assms
  by (cases "http_post w 0")
     (auto simp: relay_event_def io_defs requests_post_def raise_for_status_def
           split: outcome.splits prod.splits)

lemma relay_event_False:
  assumes "build_payload data = Returns p" and "delivery_result (http_post w 0) = Returns False"
  shows "\<exists>e. relay_event self data w =
           (Returns False,
            [Log INFO (RelayingMsg (api_endpoint self) p),
             HttpPost (api_endpoint self) (headers self) p 10,
             Log ERROR (RelayFailedMsg e)], after_posts 1 w)"
  using assms
  by (cases "http_post w 0")
     (auto simp: relay_event_def io_defs requests_post_def raise_for_status_def after_posts_def
           split: outcome.splits prod.splits if_splits)

lemma relay_event_True:
  assumes "build_payload data = Returns p" and "delivery_result (http_post w 0) = Returns True"
  shows "\<exists>b. relay_event self data w =
           (Returns True,
            [Log INFO (RelayingMsg (api_endpoint self) p),
             HttpPost (api_endpoint self) (headers self) p 10,
             Log INFO (RelayedMsg b)], after_posts 1 w)"
  using assms
  by (cases "http_post w 0")
     (auto simp: relay_event_def io_defs requests_post_def raise_for_status_def after_posts_def
           split: outcome.splits prod.splits if_splits)

subsection \<open>The retry loop\<close>

lemma relay_attempts_fail_step:
  assumes "relay_event orc data w = (Returns False, as, w')"
  shows "relay_attempts orc data m (a # rest) w =
           (case relay_attempts orc data m rest w' of
              (r, bs, w'') \<Rightarrow>
                (r, as @ [Log WARNING (AttemptFailedMsg (a + 1) m), Sleep (2 ^ a)] @ bs, w''))"
  using assms by (simp add: io_defs split: prod.splits outcome.splits)

lemma relay_attempts_success_step:
  assumes "relay_event orc data w = (Returns True, as, w')"
      and "map_of data ''transactionHash'' = Some tx"
  shows "relay_attempts orc data m (a # rest) w =
           (Returns (), as @ [Log INFO (ProcessedMsg tx)], w')"
  using assms by (simp add: io_defs getitem_def split: prod.splits outcome.splits)

lemma relay_attempts_first_success:
  assumes p: "build_payload data = Returns p"
      and tx: "map_of data ''transactionHash'' = Some tx"
  shows "k < length atts \<Longrightarrow>
         (\<forall>i<k. delivery_result (http_post w i) = Returns False) \<Longrightarrow>
         delivery_result (http_post w k) = Returns True \<Longrightarrow>
         \<exists>as. relay_attempts orc data m atts w = (Returns (), as, after_posts (Suc k) w)
             \<and> length (posts as) = Suc k
             \<and> sleeps as = map (\<lambda>a. 2 ^ a) (take k atts)
             \<and> sleeps (after_last_post as) = []
             \<and> last as = Log INFO (ProcessedMsg tx)"
proof (induction atts arbitrary: k w)
  case Nil
  then show ?case by simp
next
  case (Cons a rest)
  show ?case
  proof (cases k)
    case 0
    with Cons.prems have "delivery_result (http_post w 0) = Returns True" by simp
    from relay_event_True [OF p this, of orc] obtain b where
      r: "relay_event orc data w =
            (Returns True,
             [Log INFO (RelayingMsg (api_endpoint orc) p),
              HttpPost (api_endpoint orc) (headers orc) p 10,
              Log INFO (RelayedMsg b)], after_posts 1 w)" by blast
    show ?thesis
      using 0 relay_attempts_success_step [OF r tx, of m a rest]
      by (simp add: after_last_post_def del: relay_attempts.simps)
  next
    case (Suc j)
    with Cons.prems have f0: "delivery_result (http_post w 0) = Returns False" by simp
    from relay_event_False [OF p f0, of orc] obtain e where
      r: "relay_event orc data w =
            (Returns False,
             [Log INFO (RelayingMsg (api_endpoint orc) p),
              HttpPost (api_endpoint orc) (headers orc) p 10,
              Log ERROR (RelayFailedMsg e)], after_posts 1 w)" by blast
    have j: "j < length rest" using Cons.prems(1) Suc by simp
    have fj: "\<forall>i<j. delivery_result (http_post (after_posts 1 w) i) = Returns False"
      using Cons.prems(2) Suc by simp
    have sj: "delivery_result (http_post (after_posts 1 w) j) = Returns True"
      using Cons.prems(3) Suc by simp
    from Cons.IH [OF j fj sj] obtain bs where
      bs: "relay_attempts orc data m rest (after_posts 1 w) =
              (Returns (), bs, after_posts (Suc j) (after_posts 1 w))"
      and n: "length (posts bs) = Suc j"
      and s: "sleeps bs = map (\<lambda>a. 2 ^ a) (take j rest)"
      and l: "sleeps (after_last_post bs) = []"
      and e: "last bs = Log INFO (ProcessedMsg tx)" by blast
    have w: "after_posts (Suc j) (after_posts 1 w) = after_posts (Suc k) w"
      using Suc by (simp add: after_posts_def)
    have ne: "posts bs \<noteq> []" and ne': "bs \<noteq> []" using n by auto
    let ?pre = "[Log INFO (RelayingMsg (api_endpoint orc) p),
                 HttpPost (api_endpoint orc) (headers orc) p 10,
                 Log ERROR (RelayFailedMsg e),
                 Log WARNING (AttemptFailedMsg (a + 1) m), Sleep (2 ^ a)]"
    have "relay_attempts orc data m (a # rest) w = (Returns (), ?pre @ bs, after_posts (Suc k) w)"
      using relay_attempts_fail_step [OF r, of m a rest] bs w
      by (simp del: relay_attempts.simps)
    moreover have "length (posts (?pre @ bs)) = Suc k" using n Suc by simp
    moreover have "sleeps (?pre @ bs) = map (\<lambda>a. 2 ^ a) (take k (a # rest))" using s Suc by simp
    moreover have "sleeps (after_last_post (?pre @ bs)) = []"
      using l after_last_post_append [OF ne, of ?pre] by simp
    moreover have "last (?pre @ bs) = Log INFO (ProcessedMsg tx)" using e ne' by simp
    ultimately show ?thesis by blast
  qed
qed

subsection \<open>\<^verbatim>\<open>_process_event\<close> on a log that has its three keys\<close>

lemma processed_data_ok:
  assumes "map_of event ''transactionHash'' = Some (HexBytes h)"
      and "map_of event ''args'' = Some (Dict args)"
      and "map_of event ''blockNumber'' = Some blk"
  shows "processed_data self event =
           Returns [(''transactionHash'', Val (PStr h)), (''block_number'', blk),
                    (''source_chain_id'', Val (PInt (source_chain_id self))),
                    (''destination_chain_id'', Val (get_or_none args ''destinationChainId'')),
                    (''user'', Val (get_or_none args ''user'')),
                    (''token'', Val (get_or_none args ''token'')),
                    (''amount'', Val (PStr (py_str (get_or_none args ''amount''))))]"
  using assms by (simp add: processed_data_def getitem_def)

lemma build_payload_ok:
  "build_payload [(''transactionHash'', tx), (''block_number'', blk), (''source_chain_id'', src),
                  (''destination_chain_id'', dst), (''user'', usr), (''token'', tok),
                  (''amount'', amt)] =
     Returns [(''source_tx_hash'', tx), (''source_chain_id'', src),
              (''destination_chain_id'', dst), (''user'', usr), (''token'', tok),
              (''amount'', amt), (''block_number'', blk)]"
  by (simp add: build_payload_def getitem_def)

lemma process_event_ok:
  assumes "map_of event ''transactionHash'' = Some (HexBytes h)"
      and "map_of event ''args'' = Some (Dict args)"
      and "map_of event ''blockNumber'' = Some blk"
  shows "\<exists>data p. processed_data self event = Returns data
           \<and> build_payload data = Returns p
           \<and> map_of p ''amount'' = Some (Val (PStr (py_str (get_or_none args ''amount''))))
           \<and> map_of data ''transactionHash'' = Some (Val (PStr h))
           \<and> (\<forall>w. process_event self event w =
                (case relay_attempts (oracle' self) data 3 [0, 1, 2] w of
                   (r, as, w') \<Rightarrow> (r, Log INFO (NewEventMsg (event_name self) h) # as, w')))"
proof -
  have u: "[0..<max_retries] = [0, 1, 2]"
    by (simp add: max_retries_def upt_rec)
  let ?data = "[(''transactionHash'', Val (PStr h)), (''block_number'', blk),
                (''source_chain_id'', Val (PInt (source_chain_id self))),
                (''destination_chain_id'', Val (get_or_none args ''destinationChainId'')),
                (''user'', Val (get_or_none args ''user'')),
                (''token'', Val (get_or_none args ''token'')),
                (''amount'', Val (PStr (py_str (get_or_none args ''amount''))))]"
  have d: "processed_data self event = Returns ?data"
    by (rule processed_data_ok [OF assms])
  have "process_event self event w =
          (case relay_attempts (oracle' self) ?data 3 [0, 1, 2] w of
             (r, as, w') \<Rightarrow> (r, Log INFO (NewEventMsg (event_name self) h) # as, w'))" for w
    using assms(1,2) u
    by (simp add: process_event_def d io_defs getitem_def max_retries_def
          split: prod.splits outcome.splits del: relay_attempts.simps)
  moreover have "map_of ?data ''transactionHash'' = Some (Val (PStr h))" by simp
  ultimately show ?thesis using d build_payload_ok by fastforce
qed

lemma relay_attempts_all_fail:
  assumes p: "build_payload data = Returns p"
      and f: "\<forall>k<3. delivery_result (http_post w k) = Returns False"
  shows "\<exists>e0 e1 e2. relay_attempts orc data 3 [0, 1, 2] w =
           (Returns (),
            [Log INFO (RelayingMsg (api_endpoint orc) p),
             HttpPost (api_endpoint orc) (headers orc) p 10,
             Log ERROR (RelayFailedMsg e0), Log WARNING (AttemptFailedMsg 1 3), Sleep 1,
             Log INFO (RelayingMsg (api_endpoint orc) p),
             HttpPost (api_endpoint orc) (headers orc) p 10,
             Log ERROR (RelayFailedMsg e1), Log WARNING (AttemptFailedMsg 2 3), Sleep 2,
             Log INFO (RelayingMsg (api_endpoint orc) p),
             HttpPost (api_endpoint orc) (headers orc) p 10,
             Log ERROR (RelayFailedMsg e2), Log WARNING (AttemptFailedMsg 3 3), Sleep 4,
             Log ERROR (GaveUpMsg 3)],
            after_posts 3 w)"
proof -
  from f have f0: "delivery_result (http_post w 0) = Returns False"
    and f1: "delivery_result (http_post (after_posts 1 w) 0) = Returns False"
    and f2: "delivery_result (http_post (after_posts 2 w) 0) = Returns False"
    by simp_all
  have w12: "after_posts 1 (after_posts 1 w) = after_posts 2 w"
    and w23: "after_posts 1 (after_posts 2 w) = after_posts 3 w"
    by (simp_all add: after_posts_def numeral_3_eq_3)
  let ?call = "\<lambda>e. [Log INFO (RelayingMsg (api_endpoint orc) p),
                    HttpPost (api_endpoint orc) (headers orc) p 10,
                    Log ERROR (RelayFailedMsg e)]"
  from relay_event_False [OF p f0, of orc] obtain e0 where
    r0: "relay_event orc data w = (Returns False, ?call e0, after_posts 1 w)" by blast
  from relay_event_False [OF p f1, of orc] w12 obtain e1 where
    r1: "relay_event orc data (after_posts 1 w) = (Returns False, ?call e1, after_posts 2 w)"
    by metis
  from relay_event_False [OF p f2, of orc] w23 obtain e2 where
    r2: "relay_event orc data (after_posts 2 w) = (Returns False, ?call e2, after_posts 3 w)"
    by metis
  have s2: "relay_attempts orc data 3 [2] (after_posts 2 w) =
              (Returns (),
               ?call e2 @ [Log WARNING (AttemptFailedMsg 3 3), Sleep 4, Log ERROR (GaveUpMsg 3)],
               after_posts 3 w)"
    using relay_attempts_fail_step [OF r2, of 3 2 "[]"] by (simp add: emit_def)
  have s1: "relay_attempts orc data 3 [1, 2] (after_posts 1 w) =
              (Returns (),
               ?call e1 @ [Log WARNING (AttemptFailedMsg 2 3), Sleep 2] @
               ?call e2 @ [Log WARNING (AttemptFailedMsg 3 3), Sleep 4, Log ERROR (GaveUpMsg 3)],
               after_posts 3 w)"
    using relay_attempts_fail_step [OF r1, of 3 1 "[2]"] s2 by (simp del: relay_attempts.simps)
  have "relay_attempts orc data 3 [0, 1, 2] w =
              (Returns (),
               ?call e0 @ [Log WARNING (AttemptFailedMsg 1 3), Sleep 1] @
               ?call e1 @ [Log WARNING (AttemptFailedMsg 2 3), Sleep 2] @
               ?call e2 @ [Log WARNING (AttemptFailedMsg 3 3), Sleep 4, Log ERROR (GaveUpMsg 3)],
               after_posts 3 w)"
    using relay_attempts_fail_step [OF r0, of 3 0 "[1, 2]"] s1 by (simp del: relay_attempts.simps)
  then show ?thesis by simp
qed

lemma process_event_all_fail_trace:
  assumes "map_of event ''transactionHash'' = Some (HexBytes h)"
      and "map_of event ''args'' = Some (Dict args)"
      and "map_of event ''blockNumber'' = Some blk"
      and f: "\<forall>k<3. delivery_result (http_post w k) = Returns False"
  shows "\<exists>p e0 e1 e2. process_event self event w =
           (Returns (),
            [Log INFO (NewEventMsg (event_name self) h),
             Log INFO (RelayingMsg (api_endpoint (oracle' self)) p),
             HttpPost (api_endpoint (oracle' self)) (headers (oracle' self)) p 10,
             Log ERROR (RelayFailedMsg e0), Log WARNING (AttemptFailedMsg 1 3), Sleep 1,
             Log INFO (RelayingMsg (api_endpoint (oracle' self)) p),
             HttpPost (api_endpoint (oracle' self)) (headers (oracle' self)) p 10,
             Log ERROR (RelayFailedMsg e1), Log WARNING (AttemptFailedMsg 2 3), Sleep 2,
             Log INFO (RelayingMsg (api_endpoint (oracle' self)) p),
             HttpPost (api_endpoint (oracle' self)) (headers (oracle' self)) p 10,
             Log ERROR (RelayFailedMsg e2), Log WARNING (AttemptFailedMsg 3 3), Sleep 4,
             Log ERROR (GaveUpMsg 3)],
            after_posts 3 w)"
proof -
  from process_event_ok [OF assms(1-3), of self] obtain data p where
    p: "build_payload data = Returns p"
    and pe: "\<And>w. process_event self event w =
                (case relay_attempts (oracle' self) data 3 [0, 1, 2] w of
                   (r, as, w') \<Rightarrow> (r, Log INFO (NewEventMsg (event_name self) h) # as, w'))"
    by blast
  from relay_attempts_all_fail [OF p f, of "oracle' self"] show ?thesis
    unfolding pe by auto
qed

text \<open>
  C1. When every delivery of an event fails, \<^verbatim>\<open>_process_event\<close> makes exactly three
  delivery calls and sleeps 1, 2 and 4 time units: nothing is slept before the first
  call, and the 4 units are slept after the third and last call, before the terminal
  failure is logged.
\<close>

theorem process_event_all_attempts_fail:
  assumes "map_of event ''transactionHash'' = Some (HexBytes h)"
      and "map_of event ''args'' = Some (Dict args)"
      and "map_of event ''blockNumber'' = Some blk"
      and "\<forall>k<3. delivery_result (http_post w k) = Returns False"
  shows "\<exists>as. process_event self event w = (Returns (), as, after_posts 3 w)
           \<and> length (posts as) = 3
           \<and> sleeps as = [1, 2, 4]
           \<and> sleeps (before_first_post as) = []
           \<and> sleeps (after_last_post as) = [4]
           \<and> last as = Log ERROR (GaveUpMsg 3)"
proof -
  from process_event_all_fail_trace [OF assms, of self] obtain p e0 e1 e2 where
    "process_event self event w =
           (Returns (),
            [Log INFO (NewEventMsg (event_name self) h),
             Log INFO (RelayingMsg (api_endpoint (oracle' self)) p),
             HttpPost (api_endpoint (oracle' self)) (headers (oracle' self)) p 10,
             Log ERROR (RelayFailedMsg e0), Log WARNING (AttemptFailedMsg 1 3), Sleep 1,
             Log INFO (RelayingMsg (api_endpoint (oracle' self)) p),
             HttpPost (api_endpoint (oracle' self)) (headers (oracle' self)) p 10,
             Log ERROR (RelayFailedMsg e1), Log WARNING (AttemptFailedMsg 2 3), Sleep 2,
             Log INFO (RelayingMsg (api_endpoint (oracle' self)) p),
             HttpPost (api_endpoint (oracle' self)) (headers (oracle' self)) p 10,
             Log ERROR (RelayFailedMsg e2), Log WARNING (AttemptFailedMsg 3 3), Sleep 4,
             Log ERROR (GaveUpMsg 3)],
            after_posts 3 w)"
    by blast
  then show ?thesis
    by (simp add: before_first_post_def after_last_post_def)
qed

theorem process_event_all_attempts_fail_witness:
  "delivery_result (always_status 500 0) = Returns False
   \<and> delivery_result (always_status 500 1) = Returns False
   \<and> delivery_result (always_status 500 2) = Returns False
   \<and> (\<exists>as. process_event service0 deposit_log (answering (always_status 500) no_logs) =
              (Returns (), as, after_posts 3 (answering (always_status 500) no_logs))
          \<and> length (posts as) = 3
          \<and> sleeps as = [1, 2, 4]
          \<and> sleeps (before_first_post as) = []
          \<and> sleeps (after_last_post as) = [4]
          \<and> last as = Log ERROR (GaveUpMsg 3))"
  using process_event_all_attempts_fail [of deposit_log "''ab''" _ "Val (PInt 100)"
      "answering (always_status 500) no_logs" service0]
  by (simp add: deposit_log_def answering_def always_status_def)

text \<open>
  C7. When the delivery of an event fails \<open>k\<close> times (\<open>k < 3\<close>) and succeeds on attempt
  \<open>k\<close>, \<^verbatim>\<open>_process_event\<close> makes exactly \<open>k + 1\<close> delivery calls; the delays slept are
  \<open>2^i\<close> for the failed attempts \<open>i < k\<close>, nothing is slept after the successful call,
  and the last thing done is the log of the success.
\<close>

theorem process_event_stops_at_first_success:
  assumes "map_of event ''transactionHash'' = Some (HexBytes h)"
      and "map_of event ''args'' = Some (Dict args)"
      and "map_of event ''blockNumber'' = Some blk"
      and k: "k < 3"
      and f: "\<forall>i<k. delivery_result (http_post w i) = Returns False"
      and s: "delivery_result (http_post w k) = Returns True"
  shows "\<exists>as. process_event self event w = (Returns (), as, after_posts (k + 1) w)
           \<and> length (posts as) = k + 1
           \<and> sleeps as = map (\<lambda>i. 2 ^ i) [0..<k]
           \<and> sleeps (after_last_post as) = []
           \<and> last as = Log INFO (ProcessedMsg (Val (PStr h)))"
proof -
  from process_event_ok [OF assms(1-3), of self] obtain data p where
    p: "build_payload data = Returns p"
    and tx: "map_of data ''transactionHash'' = Some (Val (PStr h))"
    and pe: "process_event self event w =
                (case relay_attempts (oracle' self) data 3 [0, 1, 2] w of
                   (r, as, w') \<Rightarrow> (r, Log INFO (NewEventMsg (event_name self) h) # as, w'))"
    by blast
  have len: "k < length [0, 1, 2::nat]" using k by simp
  from relay_attempts_first_success [OF p tx len f s, of "oracle' self" 3] obtain bs where
    bs: "relay_attempts (oracle' self) data 3 [0, 1, 2] w = (Returns (), bs, after_posts (Suc k) w)"
    and n: "length (posts bs) = Suc k"
    and sl: "sleeps bs = map (\<lambda>a. 2 ^ a) (take k [0, 1, 2])"
    and al: "sleeps (after_last_post bs) = []"
    and la: "last bs = Log INFO (ProcessedMsg (Val (PStr h)))"
    by blast
  have ne: "posts bs \<noteq> []" and ne': "bs \<noteq> []" using n by auto
  have tk: "take k [0, 1, 2] = [0..<k]"
  proof -
    from k consider "k = 0" | "k = 1" | "k = 2" by linarith
    then show ?thesis by cases (simp_all add: upt_rec)
  qed
  let ?as = "Log INFO (NewEventMsg (event_name self) h) # bs"
  have "process_event self event w = (Returns (), ?as, after_posts (k + 1) w)"
    using pe bs by simp
  moreover have "length (posts ?as) = k + 1" using n by simp
  moreover have "sleeps ?as = map (\<lambda>i. 2 ^ i) [0..<k]" using sl tk by simp
  moreover have "sleeps (after_last_post ?as) = []"
    using al after_last_post_Cons [OF ne] by simp
  moreover have "last ?as = Log INFO (ProcessedMsg (Val (PStr h)))" using la ne' by simp
  ultimately show ?thesis by blast
qed

theorem process_event_stops_at_first_success_witness:
  "delivery_result (ok_after 1 0) = Returns False
   \<and> delivery_result (ok_after 1 1) = Returns True
   \<and> (\<exists>as. process_event service0 deposit_log (answering (ok_after 1) no_logs) =
              (Returns (), as, after_posts 2 (answering (ok_after 1) no_logs))
          \<and> length (posts as) = 2
          \<and> sleeps as = [1]
          \<and> sleeps (after_last_post as) = []
          \<and> last as = Log INFO (ProcessedMsg (Val (PStr ''ab''))))"
  using process_event_stops_at_first_success [of deposit_log "''ab''" _ "Val (PInt 100)" 1
      "answering (ok_after 1) no_logs" service0]
  by (simp add: deposit_log_def answering_def ok_after_def numeral_2_eq_2)

subsection \<open>The loop around \<^verbatim>\<open>_process_event\<close>\<close>

lemma http_post_after_poll [simp]: "http_post (after_poll w) = http_post w"
  by (simp add: after_poll_def)

lemma process_events_step:
  assumes "process_event self event w = (Returns (), as, w')"
  shows "process_events self (event # logs) w =
           (case process_events self logs w' of (r, bs, w'') \<Rightarrow> (r, as @ bs, w''))"
  using assms by (simp add: io_defs split: prod.splits outcome.splits)




text \<open>
  C2, as amended. A log that has no \<^verbatim>\<open>args\<close> but has a \<^verbatim>\<open>transactionHash\<close> (a bytes
  value) is skipped: \<^verbatim>\<open>_process_event\<close> returns without raising after its two log
  lines, no delivery call is made and the world is untouched, and the rest of the batch
  is processed next.
\<close>

theorem log_without_args_is_skipped:
  assumes "map_of event ''args'' = None"
      and "map_of event ''transactionHash'' = Some (HexBytes h)"
  shows "process_event self event w =
           (Returns (),
            [Log INFO (NewEventMsg (event_name self) h), Log WARNING (MissingArgsMsg event)], w)
         \<and> posts (fst (snd (process_event self event w))) = []
         \<and> process_events self (event # logs) w =
             (case process_events self logs w of
                (r, bs, w') \<Rightarrow>
                  (r, Log INFO (NewEventMsg (event_name self) h) #
                      Log WARNING (MissingArgsMsg event) # bs, w'))"
proof -
  have pe: "process_event self event w =
           (Returns (),
            [Log INFO (NewEventMsg (event_name self) h), Log WARNING (MissingArgsMsg event)], w)"
    using assms by (simp add: process_event_def io_defs getitem_def)
  then show ?thesis
    using process_events_step [OF pe, of logs] by simp
qed

theorem log_without_args_is_skipped_witness:
  "map_of [(''transactionHash'', HexBytes ''ab'')] ''args'' = None
   \<and> process_event service0 [(''transactionHash'', HexBytes ''ab'')]
        (answering (always_status 500) no_logs) =
       (Returns (),
        [Log INFO (NewEventMsg ''BridgeDepositInitiated'' ''ab''),
         Log WARNING (MissingArgsMsg [(''transactionHash'', HexBytes ''ab'')])],
        answering (always_status 500) no_logs)
   \<and> process_events service0 [[(''transactionHash'', HexBytes ''ab'')]]
        (answering (always_status 500) no_logs) =
       (Returns (),
        [Log INFO (NewEventMsg ''BridgeDepositInitiated'' ''ab''),
         Log WARNING (MissingArgsMsg [(''transactionHash'', HexBytes ''ab'')])],
        answering (always_status 500) no_logs)"
  using log_without_args_is_skipped [of "[(''transactionHash'', HexBytes ''ab'')]" "''ab''"
      service0 "answering (always_status 500) no_logs" "[]"]
  by (simp add: service0_def io_return_def)

text \<open>
  The claim as stated fails on a log that has neither \<^verbatim>\<open>args\<close> nor
  \<^verbatim>\<open>transactionHash\<close>: the first line of \<^verbatim>\<open>_process_event\<close> raises.
\<close>

theorem log_without_args_counterexample:
  "map_of ([] :: pydict) ''args'' = None
   \<and> process_event service0 [] (answering (always_status 500) no_logs) =
       (Raises (KeyError ''transactionHash''), [], answering (always_status 500) no_logs)"
  by (simp add: process_event_def io_defs getitem_def)

subsection \<open>The recovery path of \<^verbatim>\<open>run\<close>\<close>

lemma process_events_raises:
  assumes "process_event self event w = (Raises e, as, w')"
  shows "process_events self (event # logs) w = (Raises e, as, w')"
  using assms by (simp add: io_defs)

lemma process_events_append:
  assumes "process_events self pre w = (Returns (), as, w')"
  shows "process_events self (pre @ logs) w =
           (case process_events self logs w' of (r, bs, w'') \<Rightarrow> (r, as @ bs, w''))"
  using assms
proof (induction pre arbitrary: w as)
  case Nil
  then show ?case by (simp add: io_return_def split: prod.splits)
next
  case (Cons event pre)
  obtain r0 as0 w0 where e: "process_event self event w = (r0, as0, w0)"
    by (cases "process_event self event w") auto
  obtain r1 as1 w1 where p: "process_events self pre w0 = (r1, as1, w1)"
    by (cases "process_events self pre w0") auto
  from Cons.prems e p have r0: "r0 = Returns ()" and r1: "r1 = Returns ()"
    and a: "as = as0 @ as1" and w: "w' = w1"
    by (cases r0; cases r1; simp add: io_defs)+
  from Cons.IH [of w0 as1] p r1 w
  have "process_events self (pre @ logs) w0 =
          (case process_events self logs w' of (r, bs, w'') \<Rightarrow> (r, as1 @ bs, w''))"
    by simp
  with e r0 a show ?case
    by (simp add: io_defs split: prod.splits)
qed

lemma poll_cycle_raises:
  assumes "new_entries w 0 = Returns (pre @ event # logs)"
      and "process_events self pre (after_poll w) = (Returns (), as0, w1)"
      and "process_event self event w1 = (Raises e, as, w')"
  shows "poll_cycle self interval w =
           (Raises e, GetNewEntries (event_filter self) # as0 @ as, w')"
proof -
  have "process_events self (pre @ event # logs) (after_poll w) = (Raises e, as0 @ as, w')"
    using process_events_append [OF assms(2), of "event # logs"]
      process_events_raises [OF assms(3), of logs]
    by (simp del: process_events.simps)
  then show ?thesis
    using assms(1)
    by (simp add: poll_cycle_def get_new_entries_def io_defs after_poll_def
          del: process_events.simps)
qed

lemma run_iteration_recovers:
  assumes "poll_cycle self interval w = (Raises e, as, w')" and "e \<noteq> KeyboardInterrupt"
  shows "run_iteration self interval w =
           (case reconnect_and_recreate_filter self w' of
              (r, self', bs, w'') \<Rightarrow>
                (case r of Returns u \<Rightarrow> Looping | Raises e' \<Rightarrow> Crashed e',
                 self',
                 as @ [Log CRITICAL (UnexpectedErrorMsg e), Log INFO ReconnectingMsg, Sleep 15] @ bs,
                 w''))"
  using assms by (simp add: run_iteration_def)

text \<open>
  C10. \<^verbatim>\<open>_process_event\<close> reads \<^verbatim>\<open>event['transactionHash']\<close> before it looks for
  \<^verbatim>\<open>args\<close>, and \<^verbatim>\<open>event['blockNumber']\<close> after it: a log without
  \<^verbatim>\<open>transactionHash\<close>, or one with \<^verbatim>\<open>args\<close> and without \<^verbatim>\<open>blockNumber\<close>, makes it
  raise \<^verbatim>\<open>KeyError\<close>. Wherever such a log stands in its batch, once the logs before it
  have been processed the \<^verbatim>\<open>KeyError\<close> leaves \<^verbatim>\<open>_process_event\<close> and ends the
  poll cycle: the log is not skipped, the logs after it are not processed, the poll
  interval is not slept, and the loop takes its recovery path (critical log, 15 time
  units of sleep, reconnection).
\<close>

theorem missing_keys_escape_to_recovery:
  "(map_of event ''transactionHash'' = None \<longrightarrow>
      process_event self event w = (Raises (KeyError ''transactionHash''), [], w))
   \<and> (map_of event ''transactionHash'' = Some (HexBytes h) \<and> map_of event ''args'' = Some a
        \<and> map_of event ''blockNumber'' = None \<longrightarrow>
      process_event self event w =
        (Raises (KeyError ''blockNumber''), [Log INFO (NewEventMsg (event_name self) h)], w))
   \<and> (new_entries w0 0 = Returns (pre @ event # logs)
        \<and> process_events self pre (after_poll w0) = (Returns (), as0, w)
        \<and> (map_of event ''transactionHash'' = None
             \<or> map_of event ''transactionHash'' = Some (HexBytes h)
                \<and> map_of event ''args'' = Some a \<and> map_of event ''blockNumber'' = None)
      \<longrightarrow>
      (\<exists>key as. process_event self event w = (Raises (KeyError key), as, w)
         \<and> posts as = [] \<and> sleeps as = []
         \<and> run_iteration self interval w0 =
             (case reconnect_and_recreate_filter self w of
                (r, self', bs, w'') \<Rightarrow>
                  (case r of Returns u \<Rightarrow> Looping | Raises e' \<Rightarrow> Crashed e',
                   self',
                   GetNewEntries (event_filter self) # as0 @ as @
                     [Log CRITICAL (UnexpectedErrorMsg (KeyError key)), Log INFO ReconnectingMsg,
                      Sleep 15] @ bs,
                   w''))))"
proof -
  have c1: "process_event self event w = (Raises (KeyError ''transactionHash''), [], w)"
    if "map_of event ''transactionHash'' = None"
    using that by (simp add: process_event_def io_defs getitem_def)
  have c2: "process_event self event w =
        (Raises (KeyError ''blockNumber''), [Log INFO (NewEventMsg (event_name self) h)], w)"
    if "map_of event ''transactionHash'' = Some (HexBytes h) \<and> map_of event ''args'' = Some a
        \<and> map_of event ''blockNumber'' = None"
    using that by (simp add: process_event_def processed_data_def io_defs getitem_def)
  have c3: "\<exists>key as. process_event self event w = (Raises (KeyError key), as, w)
         \<and> posts as = [] \<and> sleeps as = []
         \<and> run_iteration self interval w0 =
             (case reconnect_and_recreate_filter self w of
                (r, self', bs, w'') \<Rightarrow>
                  (case r of Returns u \<Rightarrow> Looping | Raises e' \<Rightarrow> Crashed e',
                   self',
                   GetNewEntries (event_filter self) # as0 @ as @
                     [Log CRITICAL (UnexpectedErrorMsg (KeyError key)), Log INFO ReconnectingMsg,
                      Sleep 15] @ bs,
                   w''))"
    if n: "new_entries w0 0 = Returns (pre @ event # logs)"
      and p: "process_events self pre (after_poll w0) = (Returns (), as0, w)"
      and m: "map_of event ''transactionHash'' = None
             \<or> map_of event ''transactionHash'' = Some (HexBytes h)
                \<and> map_of event ''args'' = Some a \<and> map_of event ''blockNumber'' = None"
  proof -
    have "\<exists>key as. process_event self event w = (Raises (KeyError key), as, w)
            \<and> posts as = [] \<and> sleeps as = []"
    proof (rule disjE [OF m])
      assume t: "map_of event ''transactionHash'' = None"
      show ?thesis
        by (rule exI [of _ "''transactionHash''"], rule exI [of _ "[]"]) (simp add: c1 [OF t])
    next
      assume b: "map_of event ''transactionHash'' = Some (HexBytes h)
                \<and> map_of event ''args'' = Some a \<and> map_of event ''blockNumber'' = None"
      show ?thesis
        by (rule exI [of _ "''blockNumber''"],
            rule exI [of _ "[Log INFO (NewEventMsg (event_name self) h)]"])
           (simp add: c2 [OF b])
    qed
    then obtain key as where
      e: "process_event self event w = (Raises (KeyError key), as, w)"
      and q: "posts as = []" "sleeps as = []"
      by blast
    have "poll_cycle self interval w0 =
            (Raises (KeyError key), GetNewEntries (event_filter self) # as0 @ as, w)"
      by (rule poll_cycle_raises [OF n p e])
    from run_iteration_recovers [OF this] e q show ?thesis by auto
  qed
  from c1 c2 c3 show ?thesis by blast
qed

theorem missing_keys_escape_to_recovery_witness:
  "process_event service0 [] (answering (always_status 200) no_logs) =
     (Raises (KeyError ''transactionHash''), [], answering (always_status 200) no_logs)
   \<and> process_event service0 [(''transactionHash'', HexBytes ''ab''), (''args'', Dict [])]
       (answering (always_status 200) no_logs) =
     (Raises (KeyError ''blockNumber''),
      [Log INFO (NewEventMsg ''BridgeDepositInitiated'' ''ab'')],
      answering (always_status 200) no_logs)
   \<and> fst (run_iteration service0 5
         (answering (always_status 200) (first_poll [empty_args_log, [], deposit_log]))) = Looping
   \<and> posts (fst (snd (snd (run_iteration service0 5
         (answering (always_status 200) (first_poll [empty_args_log, [], deposit_log])))))) =
     [HttpPost ''http://relayer''
        [(''Content-Type'', ''application/json''), (''X-API-KEY'', ''key'')]
        [(''source_tx_hash'', Val (PStr ''ab'')), (''source_chain_id'', Val (PInt 1)),
         (''destination_chain_id'', Val PNone), (''user'', Val PNone), (''token'', Val PNone),
         (''amount'', Val (PStr ''None'')), (''block_number'', Val (PInt 100))] 10]
   \<and> sleeps (fst (snd (snd (run_iteration service0 5
         (answering (always_status 200) (first_poll [empty_args_log, [], deposit_log])))))) =
     [15]"
proof -
  let ?v = "answering (always_status 200) no_logs"
  let ?w = "answering (always_status 200) (first_poll [empty_args_log, [], deposit_log])"
  let ?p = "[(''source_tx_hash'', Val (PStr ''ab'')), (''source_chain_id'', Val (PInt 1)),
         (''destination_chain_id'', Val PNone), (''user'', Val PNone), (''token'', Val PNone),
         (''amount'', Val (PStr ''None'')), (''block_number'', Val (PInt 100))]"
  let ?as0 = "[Log INFO (NewEventMsg ''BridgeDepositInitiated'' ''ab''),
               Log INFO (RelayingMsg ''http://relayer'' ?p),
               HttpPost ''http://relayer''
                 [(''Content-Type'', ''application/json''), (''X-API-KEY'', ''key'')] ?p 10,
               Log INFO (RelayedMsg PNone), Log INFO (ProcessedMsg (Val (PStr ''ab'')))]"
  have name: "event_name service0 = ''BridgeDepositInitiated''"
    and flt: "event_filter service0 = EventFilter 0"
    by (simp_all add: service0_def)
  have a: "process_event service0 [] ?v = (Raises (KeyError ''transactionHash''), [], ?v)"
    using missing_keys_escape_to_recovery
      [where event = "[]" and self = service0 and w = ?v, THEN conjunct1]
    by simp
  have b: "process_event service0 [(''transactionHash'', HexBytes ''ab''), (''args'', Dict [])] ?v =
             (Raises (KeyError ''blockNumber''),
              [Log INFO (NewEventMsg ''BridgeDepositInitiated'' ''ab'')], ?v)"
    using missing_keys_escape_to_recovery
      [where event = "[(''transactionHash'', HexBytes ''ab''), (''args'', Dict [])]"
         and self = service0 and w = ?v and h = "''ab''" and a = "Dict []",
       THEN conjunct2, THEN conjunct1]
    by (simp add: name)
  have n: "new_entries ?w 0 = Returns ([empty_args_log] @ [] # [deposit_log])"
    by (simp add: answering_def first_poll_def)
  have pre: "process_events service0 [empty_args_log] (after_poll ?w) =
               (Returns (), ?as0, after_posts 1 (after_poll ?w))"
    by (simp add: empty_args_log_def process_event_def processed_data_def build_payload_def
          relay_event_def requests_post_def raise_for_status_def getitem_def get_or_none_def
          io_defs max_retries_def upt_rec service0_def oracle_init_def answering_def
          always_status_def after_poll_def after_posts_def)
  have r: "\<exists>self' bs w''. reconnect_and_recreate_filter service0 (after_posts 1 (after_poll ?w)) =
             (Returns (), self', bs, w'') \<and> posts bs = [] \<and> sleeps bs = []"
    by (simp add: reconnect_and_recreate_filter_def connect_def create_event_filter_def
          service0_def connector0_def answering_def BRIDGE_ABI_def io_defs after_poll_def
          after_posts_def)
  from missing_keys_escape_to_recovery
      [where event = "[]" and self = service0 and w = "after_posts 1 (after_poll ?w)"
         and ?w0.0 = ?w and pre = "[empty_args_log]" and logs = "[deposit_log]"
         and ?as0.0 = ?as0 and interval = 5 and h = h and a = a,
       THEN conjunct2, THEN conjunct2] n pre
  obtain key as where
    q: "posts as = []" "sleeps as = []"
    and it: "run_iteration service0 5 ?w =
       (case reconnect_and_recreate_filter service0 (after_posts 1 (after_poll ?w)) of
          (r, self', bs, w'') \<Rightarrow>
            (case r of Returns u \<Rightarrow> Looping | Raises e' \<Rightarrow> Crashed e',
             self',
             GetNewEntries (event_filter service0) # ?as0 @ as @
               [Log CRITICAL (UnexpectedErrorMsg (KeyError key)), Log INFO ReconnectingMsg,
                Sleep 15] @ bs,
             w''))"
    by auto
  from r obtain self' bs w'' where
    r': "reconnect_and_recreate_filter service0 (after_posts 1 (after_poll ?w)) =
           (Returns (), self', bs, w'')"
    and qb: "posts bs = []" "sleeps bs = []" by blast
  have it': "run_iteration service0 5 ?w =
       (Looping, self',
        GetNewEntries (event_filter service0) # ?as0 @ as @
          [Log CRITICAL (UnexpectedErrorMsg (KeyError key)), Log INFO ReconnectingMsg,
           Sleep 15] @ bs, w'')"
    unfolding it r' by simp
  have c: "fst (run_iteration service0 5 ?w) = Looping"
    and d: "posts (fst (snd (snd (run_iteration service0 5 ?w)))) =
             [HttpPost ''http://relayer''
                [(''Content-Type'', ''application/json''), (''X-API-KEY'', ''key'')] ?p 10]"
    and e: "sleeps (fst (snd (snd (run_iteration service0 5 ?w)))) = [15]"
    unfolding it' using q qb by simp_all
  from a b c d e show ?thesis by blast
qed

subsection \<open>Decimal strings\<close>

lemma digit_char_cases:
  assumes "d < 10"
  shows "is_digit (digit_char d) \<and> digit_val (digit_char d) = d"
proof -
  from assms have "d = 0 \<or> d = 1 \<or> d = 2 \<or> d = 3 \<or> d = 4
      \<or> d = 5 \<or> d = 6 \<or> d = 7 \<or> d = 8 \<or> d = 9"
    by presburger
  then show ?thesis
    by (elim disjE) (simp_all add: is_digit_def digit_val_def digit_char_def)
qed

lemma str_nat_digits: "list_all is_digit (str_nat n) \<and> str_nat n \<noteq> []"
proof (induction n rule: str_nat.induct)
  case (1 n)
  show ?case
  proof (cases "n < 10")
    case True
    then show ?thesis
      using digit_char_cases [of n] by (simp add: str_nat.simps [of n])
  next
    case False
    then show ?thesis
      using 1 digit_char_cases [of "n mod 10"] by (simp add: str_nat.simps [of n])
  qed
qed

lemma nat_of_decimal_snoc:
  "nat_of_decimal (s @ [c]) = 10 * nat_of_decimal s + digit_val c"
  by (simp add: nat_of_decimal_def)

lemma nat_of_decimal_str_nat: "nat_of_decimal (str_nat n) = n"
proof (induction n rule: str_nat.induct)
  case (1 n)
  show ?case
  proof (cases "n < 10")
    case True
    then show ?thesis
      using digit_char_cases [of n] by (simp add: str_nat.simps [of n] nat_of_decimal_def)
  next
    case False
    then show ?thesis
      using 1 digit_char_cases [of "n mod 10"]
      by (simp add: str_nat.simps [of n] nat_of_decimal_snoc)
  qed
qed

lemma str_int_decimal:
  assumes "0 \<le> i"
  shows "is_decimal (str_int i) \<and> int (nat_of_decimal (str_int i)) = i"
  using assms str_nat_digits [of "nat i"]
  by (simp add: str_int_def is_decimal_def nat_of_decimal_str_nat)

subsection \<open>The payload of every delivery call\<close>

lemma relay_event_shape:
  assumes "build_payload data = Returns p"
  shows "\<exists>r rest w'. relay_event self data w =
           (r, Log INFO (RelayingMsg (api_endpoint self) p) #
               HttpPost (api_endpoint self) (headers self) p 10 # rest, w')
         \<and> posts rest = []"
  using assms
  by (cases "http_post w 0")
     (auto simp: relay_event_def io_defs requests_post_def raise_for_status_def
           split: outcome.splits prod.splits)

lemma relay_attempts_posts:
  assumes p: "build_payload data = Returns p"
  shows "set (posts (fst (snd (relay_attempts orc data m atts w))))
           \<subseteq> {HttpPost (api_endpoint orc) (headers orc) p 10}"
proof (induction atts arbitrary: w)
  case Nil
  then show ?case by (simp add: emit_def)
next
  case (Cons a rest)
  from relay_event_shape [OF p, of orc w] obtain r tl w' where
    r: "relay_event orc data w =
           (r, Log INFO (RelayingMsg (api_endpoint orc) p) #
               HttpPost (api_endpoint orc) (headers orc) p 10 # tl, w')"
    and tl: "posts tl = []" by blast
  obtain r2 bs w2 where rest: "relay_attempts orc data m rest w' = (r2, bs, w2)"
    by (cases "relay_attempts orc data m rest w'") auto
  with Cons.IH [of w'] have bs: "set (posts bs) \<subseteq> {HttpPost (api_endpoint orc) (headers orc) p 10}"
    by simp
  show ?case
    using r tl rest bs
    by (cases r) (auto simp: io_defs getitem_def split: option.splits)
qed

lemma relay_attempts_posts_nonempty:
  assumes "build_payload data = Returns p"
  shows "posts (fst (snd (relay_attempts orc data m (a # rest) w))) \<noteq> []"
proof -
  from relay_event_shape [OF assms, of orc w] obtain r tl w' where
    r: "relay_event orc data w =
           (r, Log INFO (RelayingMsg (api_endpoint orc) p) #
               HttpPost (api_endpoint orc) (headers orc) p 10 # tl, w')" by blast
  show ?thesis
    using r
    by (cases r) (auto simp: io_defs getitem_def split: option.splits prod.splits)
qed

text \<open>
  C6, as amended. For every log that has \<^verbatim>\<open>transactionHash\<close>, \<^verbatim>\<open>blockNumber\<close> and an
  \<^verbatim>\<open>args\<close> dictionary, at least one delivery call is made and every delivery call
  carries the same payload, whose \<^verbatim>\<open>amount\<close> is a string, never a number: it is
  \<^verbatim>\<open>str()\<close> of what \<^verbatim>\<open>args.get('amount')\<close> gives. When that is a non-negative integer,
  the string is its decimal numeral and reads back as the same number. The payload's
  \<^verbatim>\<open>source_chain_id\<close> is the service's, and its \<^verbatim>\<open>destination_chain_id\<close> is the
  \<^verbatim>\<open>destinationChainId\<close> of the arguments.
\<close>

theorem payload_amount_is_a_string:
  assumes "map_of event ''transactionHash'' = Some (HexBytes h)"
      and "map_of event ''args'' = Some (Dict args)"
      and "map_of event ''blockNumber'' = Some blk"
  shows "\<exists>p. set (posts (fst (snd (process_event self event w)))) =
               {HttpPost (api_endpoint (oracle' self)) (headers (oracle' self)) p 10}
           \<and> map_of p ''amount'' = Some (Val (PStr (py_str (get_or_none args ''amount''))))
           \<and> map_of p ''source_chain_id'' = Some (Val (PInt (source_chain_id self)))
           \<and> map_of p ''destination_chain_id'' =
               Some (Val (get_or_none args ''destinationChainId''))
           \<and> (\<forall>n. map_of args ''amount'' = Some (PInt n) \<and> 0 \<le> n \<longrightarrow>
                 (\<exists>s. map_of p ''amount'' = Some (Val (PStr s)) \<and> is_decimal s
                      \<and> int (nat_of_decimal s) = n))"
proof -
  let ?data = "[(''transactionHash'', Val (PStr h)), (''block_number'', blk),
                (''source_chain_id'', Val (PInt (source_chain_id self))),
                (''destination_chain_id'', Val (get_or_none args ''destinationChainId'')),
                (''user'', Val (get_or_none args ''user'')),
                (''token'', Val (get_or_none args ''token'')),
                (''amount'', Val (PStr (py_str (get_or_none args ''amount''))))]"
  let ?p = "[(''source_tx_hash'', Val (PStr h)),
             (''source_chain_id'', Val (PInt (source_chain_id self))),
             (''destination_chain_id'', Val (get_or_none args ''destinationChainId'')),
             (''user'', Val (get_or_none args ''user'')),
             (''token'', Val (get_or_none args ''token'')),
             (''amount'', Val (PStr (py_str (get_or_none args ''amount'')))),
             (''block_number'', blk)]"
  have d: "processed_data self event = Returns ?data"
    by (rule processed_data_ok [OF assms])
  have p: "build_payload ?data = Returns ?p"
    by (rule build_payload_ok)
  have u: "[0..<max_retries] = [0, 1, 2]"
    by (simp add: max_retries_def upt_rec)
  have pe: "process_event self event w =
          (case relay_attempts (oracle' self) ?data 3 [0, 1, 2] w of
             (r, as, w') \<Rightarrow> (r, Log INFO (NewEventMsg (event_name self) h) # as, w'))"
    using assms(1,2) u
    by (simp add: process_event_def d io_defs getitem_def max_retries_def
          split: prod.splits outcome.splits del: relay_attempts.simps)
  have eq: "posts (fst (snd (process_event self event w))) =
            posts (fst (snd (relay_attempts (oracle' self) ?data 3 [0, 1, 2] w)))"
    unfolding pe by (simp split: prod.splits)
  have sub: "set (posts (fst (snd (process_event self event w))))
               \<subseteq> {HttpPost (api_endpoint (oracle' self)) (headers (oracle' self)) ?p 10}"
    unfolding eq by (rule relay_attempts_posts [OF p])
  have ne: "posts (fst (snd (process_event self event w))) \<noteq> []"
    unfolding eq by (rule relay_attempts_posts_nonempty [OF p])
  from sub ne have s: "set (posts (fst (snd (process_event self event w)))) =
               {HttpPost (api_endpoint (oracle' self)) (headers (oracle' self)) ?p 10}"
    by (metis set_empty subset_singletonD)
  have dec: "\<forall>n. map_of args ''amount'' = Some (PInt n) \<and> 0 \<le> n \<longrightarrow>
                 (\<exists>s. map_of ?p ''amount'' = Some (Val (PStr s)) \<and> is_decimal s
                      \<and> int (nat_of_decimal s) = n)"
    using str_int_decimal by (simp add: get_or_none_def)
  have "map_of ?p ''amount'' = Some (Val (PStr (py_str (get_or_none args ''amount''))))"
    and "map_of ?p ''source_chain_id'' = Some (Val (PInt (source_chain_id self)))"
    and "map_of ?p ''destination_chain_id'' = Some (Val (get_or_none args ''destinationChainId''))"
    by simp_all
  with s dec show ?thesis by blast
qed

theorem payload_amount_is_a_string_witness:
  "\<exists>p. set (posts (fst (snd (process_event service0 deposit_log
                (answering (always_status 200) no_logs))))) =
          {HttpPost ''http://relayer''
             [(''Content-Type'', ''application/json''), (''X-API-KEY'', ''key'')] p 10}
      \<and> map_of p ''amount'' = Some (Val (PStr ''1000000000000000000''))
      \<and> map_of p ''source_chain_id'' = Some (Val (PInt 1))
      \<and> map_of p ''destination_chain_id'' = Some (Val (PInt 2))
      \<and> is_decimal ''1000000000000000000''
      \<and> int (nat_of_decimal ''1000000000000000000'') = 1000000000000000000"
proof -
  let ?args = "[(''user'', PStr ''0xA''), (''token'', PStr ''0xB''),
                (''amount'', PInt 1000000000000000000), (''destinationChainId'', PInt 2)]"
  let ?w = "answering (always_status 200) no_logs"
  have a: "map_of deposit_log ''args'' = Some (Dict ?args)"
    and t: "map_of deposit_log ''transactionHash'' = Some (HexBytes ''ab'')"
    and b: "map_of deposit_log ''blockNumber'' = Some (Val (PInt 100))"
    by (simp_all add: deposit_log_def)
  have s: "str_int 1000000000000000000 = ''1000000000000000000''"
    by (simp add: str_int_def str_nat.simps digit_char_def)
  have am: "get_or_none ?args ''amount'' = PInt 1000000000000000000"
    and ds: "get_or_none ?args ''destinationChainId'' = PInt 2"
    and ma: "map_of ?args ''amount'' = Some (PInt 1000000000000000000)"
    by (simp_all add: get_or_none_def)
  have orc: "api_endpoint (oracle' service0) = ''http://relayer''"
    "headers (oracle' service0) = [(''Content-Type'', ''application/json''), (''X-API-KEY'', ''key'')]"
    "source_chain_id service0 = 1"
    by (simp_all add: service0_def oracle_init_def)
  from payload_amount_is_a_string [OF t a b, of service0 ?w] obtain p where
    p1: "set (posts (fst (snd (process_event service0 deposit_log ?w)))) =
           {HttpPost (api_endpoint (oracle' service0)) (headers (oracle' service0)) p 10}"
    and p2: "map_of p ''amount'' = Some (Val (PStr (py_str (get_or_none ?args ''amount''))))"
    and p3: "map_of p ''source_chain_id'' = Some (Val (PInt (source_chain_id service0)))"
    and p4: "map_of p ''destination_chain_id'' = Some (Val (get_or_none ?args ''destinationChainId''))"
    and p5: "\<forall>n. map_of ?args ''amount'' = Some (PInt n) \<and> 0 \<le> n \<longrightarrow>
                 (\<exists>s. map_of p ''amount'' = Some (Val (PStr s)) \<and> is_decimal s
                      \<and> int (nat_of_decimal s) = n)"
    by blast
  have q2: "map_of p ''amount'' = Some (Val (PStr ''1000000000000000000''))"
    using p2 unfolding am by (simp only: py_str.simps s)
  from p5 ma have "\<exists>s. map_of p ''amount'' = Some (Val (PStr s)) \<and> is_decimal s
                      \<and> int (nat_of_decimal s) = 1000000000000000000"
    by (meson zero_le_numeral)
  then obtain s' where "map_of p ''amount'' = Some (Val (PStr s'))" and "is_decimal s'"
    and "int (nat_of_decimal s') = 1000000000000000000" by blast
  with q2 have q5: "is_decimal ''1000000000000000000''"
    and q6: "int (nat_of_decimal ''1000000000000000000'') = 1000000000000000000"
    by (metis option.inject pyobj.inject(1) pyval.inject(2))+
  have q1: "set (posts (fst (snd (process_event service0 deposit_log ?w)))) =
           {HttpPost ''http://relayer''
             [(''Content-Type'', ''application/json''), (''X-API-KEY'', ''key'')] p 10}"
    using p1 unfolding orc .
  have q3: "map_of p ''source_chain_id'' = Some (Val (PInt 1))"
    using p3 unfolding orc .
  have q4: "map_of p ''destination_chain_id'' = Some (Val (PInt 2))"
    using p4 unfolding ds .
  from q1 q2 q3 q4 q5 q6 show ?thesis by blast
qed

text \<open>
  The claim as stated fails on a log whose \<^verbatim>\<open>args\<close> carry no \<^verbatim>\<open>amount\<close>: the amount
  delivered is the string \<^verbatim>\<open>None\<close>, which is not a decimal numeral.
\<close>

theorem payload_amount_counterexample:
  "map_of empty_args_log ''args'' = Some (Dict [])
   \<and> posts (fst (snd (process_event service0 empty_args_log
                (answering (always_status 200) no_logs)))) =
       [HttpPost ''http://relayer''
          [(''Content-Type'', ''application/json''), (''X-API-KEY'', ''key'')]
          [(''source_tx_hash'', Val (PStr ''ab'')), (''source_chain_id'', Val (PInt 1)),
           (''destination_chain_id'', Val PNone), (''user'', Val PNone), (''token'', Val PNone),
           (''amount'', Val (PStr ''None'')), (''block_number'', Val (PInt 100))] 10]
   \<and> \<not> is_decimal ''None''"
  by (simp add: empty_args_log_def process_event_def processed_data_def build_payload_def
        relay_event_def requests_post_def raise_for_status_def getitem_def get_or_none_def
        io_defs max_retries_def upt_rec service0_def oracle_init_def answering_def
        always_status_def is_decimal_def is_digit_def)

subsection \<open>The status and the body of the answer\<close>

text \<open>
  C3. The docstring of \<^verbatim>\<open>relay_event\<close> and the claim say: true on a 2xx status, false
  otherwise, never an exception. The code tests the status with
  \<^verbatim>\<open>raise_for_status\<close>, which raises on 4xx and 5xx only, and then calls
  \<^verbatim>\<open>response.json()\<close> inside the log line of the success: a 300 answer with a JSON
  body gives \<open>True\<close>; a 200 answer whose body is not JSON gives \<open>False\<close> when
  \<^verbatim>\<open>json()\<close> raises the \<^verbatim>\<open>requests\<close> exception, and lets the exception out of
  \<^verbatim>\<open>relay_event\<close> when \<^verbatim>\<open>json()\<close> raises the \<^verbatim>\<open>ValueError\<close> of the \<^verbatim>\<open>json\<close>
  module.
\<close>

theorem relay_event_status_and_body:
  "fst (relay_event (oracle_init ''http://relayer'' ''key'') deposit_data
          (answering (always_status 300) no_logs)) = Returns True
   \<and> fst (relay_event (oracle_init ''http://relayer'' ''key'') deposit_data
          (answering (bad_body RequestsJSONDecodeError) no_logs)) = Returns False
   \<and> fst (relay_event (oracle_init ''http://relayer'' ''key'') deposit_data
          (answering (bad_body JSONDecodeError) no_logs)) = Raises JSONDecodeError"
proof -
  have p: "\<exists>p. build_payload deposit_data = Returns p"
    by (simp add: deposit_data_def build_payload_ok)
  then obtain p where p: "build_payload deposit_data = Returns p" ..
  show ?thesis
    by (simp add: relay_event_result [OF p] answering_def always_status_def bad_body_def)
qed

text \<open>
  What does hold of \<^verbatim>\<open>relay_event\<close> on data that has the seven keys of the payload:
  one call of \<^verbatim>\<open>requests.post\<close> is made, with the payload built from the data, the
  endpoint and the headers of the configuration and a timeout of 10; the result is
  decided by the answer to that call alone; and nothing is kept: the only change of the
  world is that this answer has been consumed.
\<close>

theorem relay_event_posts_once:
  assumes "build_payload data = Returns p"
  shows "fst (relay_event self data w) = delivery_result (http_post w 0)
         \<and> posts (fst (snd (relay_event self data w))) =
             [HttpPost (api_endpoint self) (headers self) p 10]
         \<and> snd (snd (relay_event self data w)) = after_posts 1 w"
  using assms
  by (cases "http_post w 0")
     (auto simp: relay_event_def io_defs requests_post_def raise_for_status_def after_posts_def
           split: outcome.splits prod.splits)

theorem relay_event_posts_once_witness:
  "fst (relay_event (oracle_init ''http://relayer'' ''key'') deposit_data
          (answering (always_status 200) no_logs)) = Returns True
   \<and> posts (fst (snd (relay_event (oracle_init ''http://relayer'' ''key'') deposit_data
          (answering (always_status 200) no_logs)))) =
       [HttpPost ''http://relayer''
          [(''Content-Type'', ''application/json''), (''X-API-KEY'', ''key'')]
          [(''source_tx_hash'', Val (PStr ''ab'')), (''source_chain_id'', Val (PInt 1)),
           (''destination_chain_id'', Val (PInt 2)), (''user'', Val (PStr ''0xA'')),
           (''token'', Val (PStr ''0xB'')), (''amount'', Val (PStr ''1000000000000000000'')),
           (''block_number'', Val (PInt 100))] 10]
   \<and> snd (snd (relay_event (oracle_init ''http://relayer'' ''key'') deposit_data
          (answering (always_status 200) no_logs))) =
       after_posts 1 (answering (always_status 200) no_logs)"
proof -
  have p: "build_payload deposit_data =
             Returns [(''source_tx_hash'', Val (PStr ''ab'')), (''source_chain_id'', Val (PInt 1)),
                      (''destination_chain_id'', Val (PInt 2)), (''user'', Val (PStr ''0xA'')),
                      (''token'', Val (PStr ''0xB'')),
                      (''amount'', Val (PStr ''1000000000000000000'')),
                      (''block_number'', Val (PInt 100))]"
    by (simp add: deposit_data_def build_payload_ok)
  have d: "delivery_result (http_post (answering (always_status 200) no_logs) 0) = Returns True"
    by (simp add: answering_def always_status_def)
  from relay_event_posts_once [OF p, of "oracle_init ''http://relayer'' ''key''"
      "answering (always_status 200) no_logs"] d
  show ?thesis by (simp add: oracle_init_def)
qed

subsection \<open>The cursor\<close>

lemma processed_data_cursor:
  "processed_data (self\<lparr>last_processed_block := c\<rparr>) event = processed_data self event"
  by (simp add: processed_data_def split: outcome.splits)

lemma process_event_cursor:
  "process_event (self\<lparr>last_processed_block := c\<rparr>) event = process_event self event"
  by (simp add: process_event_def processed_data_cursor cong: if_cong)

lemma process_events_cursor:
  "process_events (self\<lparr>last_processed_block := c\<rparr>) logs = process_events self logs"
  by (induction logs) (simp_all add: process_event_cursor)

lemma poll_cycle_cursor:
  "poll_cycle (self\<lparr>last_processed_block := c\<rparr>) interval = poll_cycle self interval"
  by (simp add: poll_cycle_def process_events_cursor del: process_events.simps cong: if_cong)

lemma reconnect_cursor:
  "reconnect_and_recreate_filter (self\<lparr>last_processed_block := c\<rparr>) w =
     (case reconnect_and_recreate_filter self w of
        (r, self', as, w') \<Rightarrow> (r, self'\<lparr>last_processed_block := c\<rparr>, as, w'))"
  by (simp add: reconnect_and_recreate_filter_def split: prod.splits outcome.splits)

lemma run_iteration_cursor:
  "run_iteration (self\<lparr>last_processed_block := c\<rparr>) interval w =
     (case run_iteration self interval w of
        (st, self', as, w') \<Rightarrow> (st, self'\<lparr>last_processed_block := c\<rparr>, as, w'))"
  by (simp add: run_iteration_def poll_cycle_cursor reconnect_cursor
        split: prod.splits outcome.splits)

lemma run_loop_cursor:
  "run_loop n (self\<lparr>last_processed_block := c\<rparr>) interval w =
     (case run_loop n self interval w of
        (st, self', as, w') \<Rightarrow> (st, self'\<lparr>last_processed_block := c\<rparr>, as, w'))"
proof (induction n arbitrary: self w)
  case 0
  then show ?case by simp
next
  case (Suc n)
  show ?case
    by (simp add: run_iteration_cursor Suc split: prod.splits loop_status.splits)
qed

lemma run_cursor:
  "run n (self\<lparr>last_processed_block := c\<rparr>) interval w =
     (case run n self interval w of
        (st, self', as, w') \<Rightarrow> (st, self'\<lparr>last_processed_block := c\<rparr>, as, w'))"
  by (simp add: run_def run_loop_cursor split: prod.splits)

lemma service_init_cursor:
  assumes "service_init conn orc name cid w = (Returns s, as, w')"
  shows "\<exists>b. eth_block_number w 0 = Returns b \<and> last_processed_block s = b - 1"
proof -
  obtain r bs v where c: "create_event_filter conn name w = (r, bs, v)"
    by (cases "create_event_filter conn name w") auto
  have e: "eth_block_number v = eth_block_number w"
    using c
    by (auto simp: create_event_filter_def io_defs
          split: option.splits contract.splits if_splits outcome.splits prod.splits)
  show ?thesis
    using assms c e
    by (cases r; cases "eth_block_number w 0")
       (auto simp: service_init_def get_latest_block_number_def io_defs split: if_splits)
qed

text \<open>
  C8. \<^verbatim>\<open>last_processed_block\<close> is set by \<^verbatim>\<open>__init__\<close> to the latest block number
  minus one, and nothing reads or writes it afterwards: a run of the service from a
  state with any other cursor gives the same status, the same calls in the same order
  and the same world, and the cursor at the end of a run is the one it started with.
\<close>

theorem cursor_is_never_read:
  "run n (self\<lparr>last_processed_block := c\<rparr>) interval w =
     (case run n self interval w of
        (st, self', as, w') \<Rightarrow> (st, self'\<lparr>last_processed_block := c\<rparr>, as, w'))
   \<and> last_processed_block (fst (snd (run n self interval w))) = last_processed_block self
   \<and> (service_init conn orc name cid w = (Returns s, as0, w0) \<longrightarrow>
        (\<exists>b. eth_block_number w 0 = Returns b \<and> last_processed_block s = b - 1))"
proof -
  have a: "run n (self\<lparr>last_processed_block := c\<rparr>) interval w =
     (case run n self interval w of
        (st, self', as, w') \<Rightarrow> (st, self'\<lparr>last_processed_block := c\<rparr>, as, w'))" for c
    by (rule run_cursor)
  obtain st self' as w' where r: "run n self interval w = (st, self', as, w')"
    by (cases "run n self interval w") auto
  have "self\<lparr>last_processed_block := last_processed_block self\<rparr> = self" by simp
  with a [of "last_processed_block self"] r
  have "self' = self'\<lparr>last_processed_block := last_processed_block self\<rparr>" by simp
  then have "last_processed_block self' = last_processed_block self"
    by (metis event_listener_service.select_convs(6) event_listener_service.surjective
          event_listener_service.update_convs(6))
  with r a service_init_cursor show ?thesis by auto
qed

theorem cursor_is_never_read_witness:
  "run 1 (service0\<lparr>last_processed_block := 0\<rparr>) 5 (answering (always_status 200) no_logs) =
     (Looping, service0\<lparr>last_processed_block := 0\<rparr>,
      [Log INFO (StartingMsg ''BridgeDepositInitiated''), GetNewEntries (EventFilter 0),
       Log DEBUG NoEventsMsg, Sleep 5],
      after_poll (answering (always_status 200) no_logs))
   \<and> last_processed_block
        (fst (snd (run 1 service0 5 (answering (always_status 200) no_logs)))) = 99
   \<and> (\<exists>s as w'. service_init connector0 (oracle' service0) ''BridgeDepositInitiated'' 1
                    (answering (always_status 200) no_logs) = (Returns s, as, w')
          \<and> eth_block_number (answering (always_status 200) no_logs) 0 = Returns 100
          \<and> last_processed_block s = 100 - 1)"
proof -
  let ?w = "answering (always_status 200) no_logs"
  have r: "run 1 service0 5 ?w =
             (Looping, service0,
              [Log INFO (StartingMsg ''BridgeDepositInitiated''), GetNewEntries (EventFilter 0),
               Log DEBUG NoEventsMsg, Sleep 5], after_poll ?w)"
    by (simp add: run_def run_iteration_def poll_cycle_def get_new_entries_def io_defs
          after_poll_def answering_def no_logs_def service0_def)
  obtain s as w' where
    i: "service_init connector0 (oracle' service0) ''BridgeDepositInitiated'' 1 ?w = (Returns s, as, w')"
    by (simp add: service_init_def create_event_filter_def get_latest_block_number_def io_defs
          connector0_def BRIDGE_ABI_def answering_def)
  have b: "eth_block_number ?w 0 = Returns 100"
    by (simp add: answering_def)
  have l: "last_processed_block service0 = 99"
    by (simp add: service0_def)
  from cursor_is_never_read [where n = 1 and self = service0 and c = 0 and interval = 5
      and w = ?w and conn = connector0 and orc = "oracle' service0"
      and name = "''BridgeDepositInitiated''" and cid = 1 and s = s and ?as0.0 = as
      and ?w0.0 = w'] r i b l
  show ?thesis by auto
qed

subsection \<open>\<^verbatim>\<open>main\<close>\<close>

lemma connect_first_action:
  "\<exists>r self' as w'. connect self w = (r, self', ConnectRpc (rpc_url self) # as, w')"
  by (cases "rpc_connect w 0") (simp_all add: connect_def)

lemma chain_connector_init_first_action:
  "\<exists>r as w'. chain_connector_init url address abi w = (r, ConnectRpc url # as, w')"
proof -
  let ?self = "\<lparr>rpc_url = url, contract_address = address, contract_abi = abi,
                 web3 = None, contract = None\<rparr>"
  from connect_first_action [of ?self w] obtain r self' as w' where
    "connect ?self w = (r, self', ConnectRpc url # as, w')" by auto
  then show ?thesis
    by (cases r) (simp_all add: chain_connector_init_def)
qed

lemma io_bind_first_action:
  assumes "m w = (r, a # as, w')"
  shows "\<exists>r' bs w''. io_bind m f w = (r', a # bs, w'')"
  using assms by (cases r) (auto simp: io_bind_def split: prod.splits)

lemma main_runs_the_service:
  assumes "getenv ''SOURCE_CHAIN_RPC_URL'' = Some url" and "url \<noteq> []"
      and "getenv ''BRIDGE_CONTRACT_ADDRESS'' = Some address" and "address \<noteq> []"
      and "getenv ''DESTINATION_API_ENDPOINT'' = Some endpoint" and "endpoint \<noteq> []"
      and "getenv ''DESTINATION_API_KEY'' = Some key" and "key \<noteq> []"
      and "rpc_connect w 0 = ConnectOk" and "new_filter w 0 = Returns i"
      and "eth_block_number w 0 = Returns b"
  shows "\<exists>w1 cs.
           fst (snd (main getenv n w)) =
             [ConnectRpc url, Log INFO (ConnectedMsg address),
              CreateFilter ''BridgeDepositInitiated'', GetBlockNumber] @
             fst (snd (snd (run n
               \<lparr>connector = \<lparr>rpc_url = url, contract_address = address,
                              contract_abi = [''BridgeDepositInitiated''],
                              web3 = Some (Web3 url),
                              contract = Some (Contract address [''BridgeDepositInitiated''])\<rparr>,
                oracle' = oracle_init endpoint key, event_name = ''BridgeDepositInitiated'',
                source_chain_id = 1, event_filter = EventFilter i,
                last_processed_block = b - 1\<rparr> 5 w1))) @ cs"
proof -
  let ?svc = "\<lparr>connector = \<lparr>rpc_url = url, contract_address = address,
                              contract_abi = [''BridgeDepositInitiated''],
                              web3 = Some (Web3 url),
                              contract = Some (Contract address [''BridgeDepositInitiated''])\<rparr>,
                oracle' = oracle_init endpoint key, event_name = ''BridgeDepositInitiated'',
                source_chain_id = 1, event_filter = EventFilter i,
                last_processed_block = b - 1\<rparr>"
  let ?w1 = "w\<lparr>rpc_connect := (\<lambda>k. rpc_connect w (Suc k)),
               new_filter := (\<lambda>k. new_filter w (Suc k)),
               eth_block_number := (\<lambda>k. eth_block_number w (Suc k))\<rparr>"
  let ?boot = "io_bind (chain_connector_init url address BRIDGE_ABI) (\<lambda>chain_conn.
                    service_init chain_conn (oracle_init endpoint key)
                      ''BridgeDepositInitiated'' 1)"
  have boot: "?boot w =
          (Returns ?svc,
           [ConnectRpc url, Log INFO (ConnectedMsg address),
            CreateFilter ''BridgeDepositInitiated'', GetBlockNumber], ?w1)"
    using assms(9-11)
    by (simp add: chain_connector_init_def connect_def service_init_def
          create_event_filter_def get_latest_block_number_def BRIDGE_ABI_def io_defs)
  obtain st s bs w2 where r: "run n ?svc default_poll_interval ?w1 = (st, s, bs, w2)"
    by (cases "run n ?svc default_poll_interval ?w1") auto
  have "\<exists>cs. fst (snd (main getenv n w)) =
          [ConnectRpc url, Log INFO (ConnectedMsg address),
           CreateFilter ''BridgeDepositInitiated'', GetBlockNumber] @ bs @ cs"
    using assms(1-8) boot r
    by (cases st) (simp_all add: main_def truthy_def)
  with r show ?thesis
    by (metis default_poll_interval_def fst_conv snd_conv)
qed

text \<open>
  C9, as amended. \<^verbatim>\<open>main\<close> reads four environment variables: the source RPC URL, the
  bridge contract address, the destination endpoint and the destination API key. When
  one of them is unset or empty it logs an error and returns with nothing else done;
  when the four are set it goes on to connect to the RPC URL; and nothing else of the
  environment is read: two environments that agree on the four give the same run.
  When the setup succeeds, what runs is the service for the event
  \<^verbatim>\<open>BridgeDepositInitiated\<close> of the ABI written in \<^verbatim>\<open>main\<close>, with source chain
  identifier 1 and poll interval 5, whatever the environment holds.
\<close>

theorem main_reads_four_variables:
  "(\<not> truthy (getenv ''SOURCE_CHAIN_RPC_URL'') \<or> \<not> truthy (getenv ''BRIDGE_CONTRACT_ADDRESS'')
      \<or> \<not> truthy (getenv ''DESTINATION_API_ENDPOINT'') \<or> \<not> truthy (getenv ''DESTINATION_API_KEY'')
      \<longrightarrow> main getenv n w = (ConfigMissing, [Log ERROR EnvMissingMsg], w))
   \<and> (truthy (getenv ''SOURCE_CHAIN_RPC_URL'') \<and> truthy (getenv ''BRIDGE_CONTRACT_ADDRESS'')
      \<and> truthy (getenv ''DESTINATION_API_ENDPOINT'') \<and> truthy (getenv ''DESTINATION_API_KEY'')
      \<longrightarrow> (\<exists>url as. getenv ''SOURCE_CHAIN_RPC_URL'' = Some url
                   \<and> fst (snd (main getenv n w)) = ConnectRpc url # as))
   \<and> (getenv' ''SOURCE_CHAIN_RPC_URL'' = getenv ''SOURCE_CHAIN_RPC_URL''
      \<and> getenv' ''BRIDGE_CONTRACT_ADDRESS'' = getenv ''BRIDGE_CONTRACT_ADDRESS''
      \<and> getenv' ''DESTINATION_API_ENDPOINT'' = getenv ''DESTINATION_API_ENDPOINT''
      \<and> getenv' ''DESTINATION_API_KEY'' = getenv ''DESTINATION_API_KEY''
      \<longrightarrow> main getenv' n w = main getenv n w)
   \<and> (getenv ''SOURCE_CHAIN_RPC_URL'' = Some url \<and> url \<noteq> []
      \<and> getenv ''BRIDGE_CONTRACT_ADDRESS'' = Some address \<and> address \<noteq> []
      \<and> getenv ''DESTINATION_API_ENDPOINT'' = Some endpoint \<and> endpoint \<noteq> []
      \<and> getenv ''DESTINATION_API_KEY'' = Some key \<and> key \<noteq> []
      \<and> rpc_connect w 0 = ConnectOk \<and> new_filter w 0 = Returns i
      \<and> eth_block_number w 0 = Returns b
      \<longrightarrow> (\<exists>w1 cs.
             fst (snd (main getenv n w)) =
               [ConnectRpc url, Log INFO (ConnectedMsg address),
                CreateFilter ''BridgeDepositInitiated'', GetBlockNumber] @
               fst (snd (snd (run n
                 \<lparr>connector = \<lparr>rpc_url = url, contract_address = address,
                                contract_abi = [''BridgeDepositInitiated''],
                                web3 = Some (Web3 url),
                                contract = Some (Contract address [''BridgeDepositInitiated''])\<rparr>,
                  oracle' = oracle_init endpoint key, event_name = ''BridgeDepositInitiated'',
                  source_chain_id = 1, event_filter = EventFilter i,
                  last_processed_block = b - 1\<rparr> 5 w1))) @ cs))"
proof (intro conjI impI)
  assume "\<not> truthy (getenv ''SOURCE_CHAIN_RPC_URL'') \<or> \<not> truthy (getenv ''BRIDGE_CONTRACT_ADDRESS'')
      \<or> \<not> truthy (getenv ''DESTINATION_API_ENDPOINT'') \<or> \<not> truthy (getenv ''DESTINATION_API_KEY'')"
  then show "main getenv n w = (ConfigMissing, [Log ERROR EnvMissingMsg], w)"
    by (auto simp: main_def)
next
  assume t: "truthy (getenv ''SOURCE_CHAIN_RPC_URL'') \<and> truthy (getenv ''BRIDGE_CONTRACT_ADDRESS'')
      \<and> truthy (getenv ''DESTINATION_API_ENDPOINT'') \<and> truthy (getenv ''DESTINATION_API_KEY'')"
  then obtain url where u: "getenv ''SOURCE_CHAIN_RPC_URL'' = Some url"
    by (auto simp: truthy_def split: option.splits)
  let ?boot = "io_bind (chain_connector_init url
                           (the (getenv ''BRIDGE_CONTRACT_ADDRESS'')) BRIDGE_ABI) (\<lambda>chain_conn.
                    service_init chain_conn
                      (oracle_init (the (getenv ''DESTINATION_API_ENDPOINT''))
                         (the (getenv ''DESTINATION_API_KEY'')))
                      ''BridgeDepositInitiated'' 1)"
  from chain_connector_init_first_action obtain r0 as0 w0 where
    c: "chain_connector_init url (the (getenv ''BRIDGE_CONTRACT_ADDRESS'')) BRIDGE_ABI w =
       (r0, ConnectRpc url # as0, w0)" by blast
  from io_bind_first_action
    [where m = "chain_connector_init url (the (getenv ''BRIDGE_CONTRACT_ADDRESS'')) BRIDGE_ABI"
       and w = w, OF c]
  obtain r bs v where
    s: "?boot w = (r, ConnectRpc url # bs, v)" by blast
  have "\<exists>as. fst (snd (main getenv n w)) = ConnectRpc url # as"
    using t u s
    by (cases r)
       (auto simp: main_def Let_def split: prod.splits loop_status.splits)
  with u show "\<exists>url as. getenv ''SOURCE_CHAIN_RPC_URL'' = Some url
                   \<and> fst (snd (main getenv n w)) = ConnectRpc url # as" by blast
next
  assume "getenv' ''SOURCE_CHAIN_RPC_URL'' = getenv ''SOURCE_CHAIN_RPC_URL''
      \<and> getenv' ''BRIDGE_CONTRACT_ADDRESS'' = getenv ''BRIDGE_CONTRACT_ADDRESS''
      \<and> getenv' ''DESTINATION_API_ENDPOINT'' = getenv ''DESTINATION_API_ENDPOINT''
      \<and> getenv' ''DESTINATION_API_KEY'' = getenv ''DESTINATION_API_KEY''"
  then show "main getenv' n w = main getenv n w"
    by (simp add: main_def)
next
  assume "getenv ''SOURCE_CHAIN_RPC_URL'' = Some url \<and> url \<noteq> []
      \<and> getenv ''BRIDGE_CONTRACT_ADDRESS'' = Some address \<and> address \<noteq> []
      \<and> getenv ''DESTINATION_API_ENDPOINT'' = Some endpoint \<and> endpoint \<noteq> []
      \<and> getenv ''DESTINATION_API_KEY'' = Some key \<and> key \<noteq> []
      \<and> rpc_connect w 0 = ConnectOk \<and> new_filter w 0 = Returns i
      \<and> eth_block_number w 0 = Returns b"
  then show "\<exists>w1 cs.
             fst (snd (main getenv n w)) =
               [ConnectRpc url, Log INFO (ConnectedMsg address),
                CreateFilter ''BridgeDepositInitiated'', GetBlockNumber] @
               fst (snd (snd (run n
                 \<lparr>connector = \<lparr>rpc_url = url, contract_address = address,
                                contract_abi = [''BridgeDepositInitiated''],
                                web3 = Some (Web3 url),
                                contract = Some (Contract address [''BridgeDepositInitiated''])\<rparr>,
                  oracle' = oracle_init endpoint key, event_name = ''BridgeDepositInitiated'',
                  source_chain_id = 1, event_filter = EventFilter i,
                  last_processed_block = b - 1\<rparr> 5 w1))) @ cs"
    using main_runs_the_service by blast
qed

theorem main_reads_four_variables_witness:
  "main (four_variables(''DESTINATION_API_KEY'' := None)) 1 (answering (always_status 200) no_logs) =
     (ConfigMissing, [Log ERROR EnvMissingMsg], answering (always_status 200) no_logs)
   \<and> (\<exists>as. fst (snd (main four_variables 1 (answering (always_status 200) no_logs))) =
              ConnectRpc ''http://rpc'' # as)
   \<and> main (four_variables(''POLL_INTERVAL'' := Some ''60'')) 1
        (answering (always_status 200) no_logs) =
      main four_variables 1 (answering (always_status 200) no_logs)
   \<and> (\<exists>w1 cs.
         fst (snd (main four_variables 1 (answering (always_status 200) no_logs))) =
           [ConnectRpc ''http://rpc'', Log INFO (ConnectedMsg bridge_address),
            CreateFilter ''BridgeDepositInitiated'', GetBlockNumber] @
           fst (snd (snd (run 1
             \<lparr>connector = \<lparr>rpc_url = ''http://rpc'', contract_address = bridge_address,
                            contract_abi = [''BridgeDepositInitiated''],
                            web3 = Some (Web3 ''http://rpc''),
                            contract = Some (Contract bridge_address [''BridgeDepositInitiated''])\<rparr>,
              oracle' = oracle_init ''http://relayer'' ''key'',
              event_name = ''BridgeDepositInitiated'',
              source_chain_id = 1, event_filter = EventFilter 1,
              last_processed_block = 100 - 1\<rparr> 5 w1))) @ cs)"
proof -
  let ?w = "answering (always_status 200) no_logs"
  have a: "main (four_variables(''DESTINATION_API_KEY'' := None)) 1 ?w =
             (ConfigMissing, [Log ERROR EnvMissingMsg], ?w)"
    using main_reads_four_variables
      [where getenv = "four_variables(''DESTINATION_API_KEY'' := None)" and n = 1 and w = ?w,
       THEN conjunct1]
    by (simp add: truthy_def)
  have b: "\<exists>as. fst (snd (main four_variables 1 ?w)) = ConnectRpc ''http://rpc'' # as"
    using main_reads_four_variables
      [where getenv = four_variables and n = 1 and w = ?w, THEN conjunct2, THEN conjunct1]
    by (simp add: truthy_def four_variables_def bridge_address_def)
  have c: "main (four_variables(''POLL_INTERVAL'' := Some ''60'')) 1 ?w = main four_variables 1 ?w"
    using main_reads_four_variables
      [where getenv = four_variables and getenv' = "four_variables(''POLL_INTERVAL'' := Some ''60'')"
         and n = 1 and w = ?w, THEN conjunct2, THEN conjunct2, THEN conjunct1]
    by simp
  have e: "four_variables ''SOURCE_CHAIN_RPC_URL'' = Some ''http://rpc''"
    "four_variables ''BRIDGE_CONTRACT_ADDRESS'' = Some bridge_address"
    "four_variables ''DESTINATION_API_ENDPOINT'' = Some ''http://relayer''"
    "four_variables ''DESTINATION_API_KEY'' = Some ''key''"
    "bridge_address \<noteq> []"
    by (simp_all add: four_variables_def bridge_address_def)
  have v: "rpc_connect ?w 0 = ConnectOk" "new_filter ?w 0 = Returns 1"
    "eth_block_number ?w 0 = Returns 100"
    by (simp_all add: answering_def)
  have d: "\<exists>w1 cs.
         fst (snd (main four_variables 1 ?w)) =
           [ConnectRpc ''http://rpc'', Log INFO (ConnectedMsg bridge_address),
            CreateFilter ''BridgeDepositInitiated'', GetBlockNumber] @
           fst (snd (snd (run 1
             \<lparr>connector = \<lparr>rpc_url = ''http://rpc'', contract_address = bridge_address,
                            contract_abi = [''BridgeDepositInitiated''],
                            web3 = Some (Web3 ''http://rpc''),
                            contract = Some (Contract bridge_address [''BridgeDepositInitiated''])\<rparr>,
              oracle' = oracle_init ''http://relayer'' ''key'',
              event_name = ''BridgeDepositInitiated'',
              source_chain_id = 1, event_filter = EventFilter 1,
              last_processed_block = 100 - 1\<rparr> 5 w1))) @ cs"
    using main_reads_four_variables
      [where getenv = four_variables and n = 1 and w = ?w and url = "''http://rpc''"
         and address = bridge_address and endpoint = "''http://relayer''" and key = "''key''"
         and i = 1 and b = 100, THEN conjunct2, THEN conjunct2, THEN conjunct2] e v
    by simp
  from a b c d show ?thesis by blast
qed

text \<open>
  The claim as stated fails: in an environment that sets the four variables and
  nothing else (no ABI, chain identifier, poll interval, retry count or reconnection
  delay), the service starts and polls, with the poll interval of 5 that the code fixes.
\<close>

theorem main_starts_with_four_variables_only:
  "dom four_variables =
     {''SOURCE_CHAIN_RPC_URL'', ''BRIDGE_CONTRACT_ADDRESS'', ''DESTINATION_API_ENDPOINT'',
      ''DESTINATION_API_KEY''}
   \<and> fst (main four_variables 1 (answering (always_status 200) no_logs)) = Running
   \<and> fst (snd (main four_variables 1 (answering (always_status 200) no_logs))) =
       [ConnectRpc ''http://rpc'', Log INFO (ConnectedMsg bridge_address),
        CreateFilter ''BridgeDepositInitiated'', GetBlockNumber,
        Log INFO (StartingMsg ''BridgeDepositInitiated''), GetNewEntries (EventFilter 1),
        Log DEBUG NoEventsMsg, Sleep 5]"
proof -
  let ?w = "answering (always_status 200) no_logs"
  have d: "dom four_variables =
     {''SOURCE_CHAIN_RPC_URL'', ''BRIDGE_CONTRACT_ADDRESS'', ''DESTINATION_API_ENDPOINT'',
      ''DESTINATION_API_KEY''}"
    by (auto simp: four_variables_def dom_map_of_conv_image_fst)
  have m: "main four_variables 1 ?w =
     (Running,
      [ConnectRpc ''http://rpc'', Log INFO (ConnectedMsg bridge_address),
        CreateFilter ''BridgeDepositInitiated'', GetBlockNumber,
        Log INFO (StartingMsg ''BridgeDepositInitiated''), GetNewEntries (EventFilter 1),
        Log DEBUG NoEventsMsg, Sleep 5],
      ?w\<lparr>new_entries := (\<lambda>k. Returns []), rpc_connect := (\<lambda>k. ConnectOk),
          new_filter := (\<lambda>k. Returns (Suc (Suc k))), eth_block_number := (\<lambda>k. Returns 100)\<rparr>)"
    by (simp add: main_def four_variables_def truthy_def chain_connector_init_def connect_def
          service_init_def create_event_filter_def get_latest_block_number_def BRIDGE_ABI_def
          run_def run_iteration_def poll_cycle_def get_new_entries_def io_defs
          default_poll_interval_def answering_def no_logs_def bridge_address_def)
  from d m show ?thesis by simp
qed

subsection \<open>Reconnection\<close>






end
